theory Spec2Isabelle
  imports Main
begin

section \<open>Values shared by the components\<close>

text \<open>
  The application is a React client (AuthForm, TurmasManager, AtividadesManager,
  Dashboard) over a hosted store whose tables are declared in the SQL migration.
  Identifiers (UUIDs), names and dates are JavaScript strings; a nullable column is an
  \<open>option\<close>. Timestamps are only compared, so they are natural numbers.
  The user-facing messages are Portuguese; their accents are dropped here.
\<close>

type_synonym uid = string

text \<open>JavaScript's \<^verbatim>\<open>s || null\<close> and \<^verbatim>\<open>v || ''\<close> on a string or null.\<close>

definition or_null :: "string \<Rightarrow> string option" where
  "or_null s = (if s = [] then None else Some s)"

definition or_empty :: "string option \<Rightarrow> string" where
  "or_empty v = (case v of None \<Rightarrow> [] | Some s \<Rightarrow> s)"

text \<open>A toast of \<^verbatim>\<open>use-toast\<close>; \<open>destructive\<close> is \<^verbatim>\<open>variant: "destructive"\<close>.\<close>

record toast =
  title :: string
  description :: string
  destructive :: bool

text \<open>
  The outcome of an \<^verbatim>\<open>await\<close>: the promise rejects (throws) or resolves. An async
  handler that awaits outside \<^verbatim>\<open>try\<close> stops at a rejection, keeping the state it had
  reached; only \<^verbatim>\<open>loadStats\<close> awaits inside \<^verbatim>\<open>try\<close>.
\<close>

datatype 'a awaited = Rejected | Resolved 'a

text \<open>The \<^verbatim>\<open>{ data, error }\<close> pair a select resolves with.\<close>

record 'r response =
  r_data :: "'r list option"
  r_error :: "string option"

subsection \<open>Rows, form states and payloads\<close>

text \<open>A row of \<^verbatim>\<open>public.turmas\<close>, as \<^verbatim>\<open>select('*')\<close> returns it.\<close>

record turma =
  t_id :: string
  t_teacher_id :: uid
  t_name :: string
  t_description :: "string option"
  t_grade_level :: "string option"
  t_subject :: "string option"
  t_created_at :: nat
  t_updated_at :: nat

text \<open>\<^verbatim>\<open>formData\<close> of TurmasManager and the object \<^verbatim>\<open>turmaData\<close> it sends.\<close>

record turma_form =
  f_name :: string
  f_description :: string
  f_grade_level :: string
  f_subject :: string

record turma_data =
  d_name :: string
  d_description :: "string option"
  d_grade_level :: "string option"
  d_subject :: "string option"
  d_teacher_id :: uid

text \<open>
  A row of \<^verbatim>\<open>public.atividades\<close>. The column \<open>status\<close> is \<^verbatim>\<open>TEXT\<close> without
  \<^verbatim>\<open>NOT NULL\<close>; the client's union type is erased at run time and the rows are cast
  unchecked (\<^verbatim>\<open>as Atividade[]\<close>), so the stored text is kept as it is.
\<close>

record atividade_row =
  a_id :: string
  a_turma_id :: string
  a_teacher_id :: uid
  a_title :: string
  a_description :: "string option"
  a_due_date :: "string option"
  a_status :: "string option"
  a_created_at :: nat
  a_updated_at :: nat

text \<open>A row with the embedded \<^verbatim>\<open>turmas (name)\<close> of the select in \<^verbatim>\<open>loadData\<close>.\<close>

record atividade =
  row :: atividade_row
  turmas_name :: "string option"

text \<open>The \<^verbatim>\<open>{ id, name }\<close> rows AtividadesManager keeps for its class selector.\<close>

record turma_ref =
  tr_id :: string
  tr_name :: string

record atividade_form =
  g_title :: string
  g_description :: string
  g_due_date :: string
  g_status :: "string option"
  g_turma_id :: string

record atividade_data =
  p_title :: string
  p_description :: "string option"
  p_due_date :: "string option"
  p_status :: "string option"
  p_turma_id :: string
  p_teacher_id :: uid

record auth_form =
  email :: string
  password :: string
  fullName :: string
  confirmPassword :: string

record dashboard_stats =
  totalTurmas :: nat
  totalAtividades :: nat
  atividadesPendentes :: nat

subsection \<open>Requests and the store client\<close>

text \<open>Every request a handler issues is appended to a log, in the order of issue.\<close>

datatype request =
    Auth_signUp string string string
  | Select_turmas uid
  | Select_turmas_id_name uid
  | Select_atividades uid
  | Insert_turma turma_data
  | Update_turma turma_data string
  | Delete_turma string
  | Insert_atividade atividade_data
  | Update_atividade atividade_data string
  | Delete_atividade string
  | Count_turmas uid
  | Count_atividades uid
  | Count_pending uid

text \<open>
  The store client (\<^verbatim>\<open>supabase.from(...)\<close>) is a parameter of every handler: one
  function per query the components build, over a remote state \<open>'db\<close>. A mutation
  resolves with its \<open>error\<close> (\<open>None\<close> is success); a count resolves with
  \<open>count\<close>, which is null when the query failed.
\<close>

record 'db backend =
  select_turmas :: "uid \<Rightarrow> 'db \<Rightarrow> turma response awaited"
  select_turmas_id_name :: "uid \<Rightarrow> 'db \<Rightarrow> turma_ref response awaited"
  select_atividades :: "uid \<Rightarrow> 'db \<Rightarrow> atividade response awaited"
  insert_turma :: "turma_data \<Rightarrow> 'db \<Rightarrow> string option awaited \<times> 'db"
  update_turma :: "turma_data \<Rightarrow> string \<Rightarrow> 'db \<Rightarrow> string option awaited \<times> 'db"
  delete_turma :: "string \<Rightarrow> 'db \<Rightarrow> string option awaited \<times> 'db"
  insert_atividade :: "atividade_data \<Rightarrow> 'db \<Rightarrow> string option awaited \<times> 'db"
  update_atividade :: "atividade_data \<Rightarrow> string \<Rightarrow> 'db \<Rightarrow> string option awaited \<times> 'db"
  delete_atividade :: "string \<Rightarrow> 'db \<Rightarrow> string option awaited \<times> 'db"
  count_turmas :: "uid \<Rightarrow> 'db \<Rightarrow> nat option awaited"
  count_atividades :: "uid \<Rightarrow> 'db \<Rightarrow> nat option awaited"
  count_pending :: "uid \<Rightarrow> 'db \<Rightarrow> nat option awaited"

subsection \<open>The state of the client\<close>

text \<open>
  The \<^verbatim>\<open>useState\<close> cells of the four components, the signed-in user of
  \<^verbatim>\<open>useAuth\<close>, the remote state, and the three effect logs: requests issued, toasts
  raised, lines written with \<^verbatim>\<open>console.error\<close>.
\<close>

record 'db world =
  user :: "uid option"
  db :: 'db
  calls :: "request list"
  toasts :: "toast list"
  console :: "string list"
  af_loading :: bool
  af_formData :: auth_form
  tm_turmas :: "turma list"
  tm_loading :: bool
  tm_isDialogOpen :: bool
  tm_editingTurma :: "turma option"
  tm_formData :: turma_form
  am_atividades :: "atividade list"
  am_turmas :: "turma_ref list"
  am_loading :: bool
  am_isDialogOpen :: bool
  am_editingAtividade :: "atividade option"
  am_formData :: atividade_form
  stats :: dashboard_stats
  dash_loading :: bool

definition say :: "string \<Rightarrow> string \<Rightarrow> bool \<Rightarrow> 'db world \<Rightarrow> 'db world" where
  "say t d v w = w\<lparr>toasts := toasts w @ [\<lparr>title = t, description = d, destructive = v\<rparr>]\<rparr>"

definition console_error :: "string \<Rightarrow> 'db world \<Rightarrow> 'db world" where
  "console_error m w = w\<lparr>console := console w @ [m]\<rparr>"

definition issue :: "request \<Rightarrow> 'db world \<Rightarrow> 'db world" where
  "issue r w = w\<lparr>calls := calls w @ [r]\<rparr>"

section \<open>AuthForm\<close>

text \<open>
  \<^verbatim>\<open>handleSignUp\<close>: the loading flag is raised, the two passwords are compared, and only
  when they agree is \<^verbatim>\<open>signUp\<close> of the auth hook called. The hook is a parameter.
\<close>

definition handleSignUp ::
  "(string \<Rightarrow> string \<Rightarrow> string \<Rightarrow> 'db \<Rightarrow> string option awaited \<times> 'db) \<Rightarrow> 'db world \<Rightarrow> 'db world"
where
  "handleSignUp signUp w =
    (let w1 = w\<lparr>af_loading := True\<rparr>; fd = af_formData w1 in
     if password fd \<noteq> confirmPassword fd then
       (say ''Erro'' ''As senhas nao coincidem'' True w1)\<lparr>af_loading := False\<rparr>
     else
       (let w2 = issue (Auth_signUp (email fd) (password fd) (fullName fd)) w1;
            (res, db') = signUp (email fd) (password fd) (fullName fd) (db w2);
            w3 = w2\<lparr>db := db'\<rparr>
        in case res of
             Rejected \<Rightarrow> w3
           | Resolved (Some msg) \<Rightarrow>
               (say ''Erro no cadastro'' msg True w3)\<lparr>af_loading := False\<rparr>
           | Resolved None \<Rightarrow>
               (say ''Cadastro realizado!'' ''Verifique seu email para confirmar a conta.'' False w3)
                 \<lparr>af_loading := False\<rparr>))"

section \<open>Dashboard\<close>

text \<open>\<^verbatim>\<open>count || 0\<close>: a null count, and a count of zero, are shown as zero.\<close>

definition or_zero :: "nat option \<Rightarrow> nat" where
  "or_zero c = (case c of None \<Rightarrow> 0 | Some n \<Rightarrow> n)"

text \<open>
  \<^verbatim>\<open>loadStats\<close>: three counts awaited one after the other inside \<^verbatim>\<open>try\<close>. A count
  that throws leads to \<^verbatim>\<open>catch\<close>, which writes to the console; \<^verbatim>\<open>setStats\<close> is
  reached only when all three have resolved; \<^verbatim>\<open>finally\<close> lowers the loading flag.
\<close>

definition loadStats_catch :: "'db world \<Rightarrow> 'db world" where
  "loadStats_catch w = (console_error ''Error loading stats:'' w)\<lparr>dash_loading := False\<rparr>"

definition loadStats :: "'db backend \<Rightarrow> 'db world \<Rightarrow> 'db world" where
  "loadStats srv w =
    (case user w of
       None \<Rightarrow> w
     | Some u \<Rightarrow>
        (let w1 = issue (Count_turmas u) w in
         case count_turmas srv u (db w1) of
           Rejected \<Rightarrow> loadStats_catch w1
         | Resolved turmasCount \<Rightarrow>
            (let w2 = issue (Count_atividades u) w1 in
             case count_atividades srv u (db w2) of
               Rejected \<Rightarrow> loadStats_catch w2
             | Resolved atividadesCount \<Rightarrow>
                (let w3 = issue (Count_pending u) w2 in
                 case count_pending srv u (db w3) of
                   Rejected \<Rightarrow> loadStats_catch w3
                 | Resolved pendingCount \<Rightarrow>
                     w3\<lparr>stats := \<lparr>totalTurmas = or_zero turmasCount,
                                   totalAtividades = or_zero atividadesCount,
                                   atividadesPendentes = or_zero pendingCount\<rparr>,
                        dash_loading := False\<rparr>))))"

section \<open>TurmasManager\<close>

text \<open>
  After a mutation has resolved without error, \<^verbatim>\<open>loadTurmas()\<close> and
  \<^verbatim>\<open>onStatsChange()\<close> are started, not awaited, and \<^verbatim>\<open>resetForm()\<close> runs; the three
  write disjoint cells and issue their requests in the order of the calls, so running
  them one after the other gives the state the component settles in. The callback
  \<^verbatim>\<open>onStatsChange\<close> is a parameter; Dashboard passes \<^verbatim>\<open>loadStats\<close>.
\<close>

definition loadTurmas :: "'db backend \<Rightarrow> 'db world \<Rightarrow> 'db world" where
  "loadTurmas srv w =
    (case user w of
       None \<Rightarrow> w
     | Some u \<Rightarrow>
        (let w1 = issue (Select_turmas u) (w\<lparr>tm_loading := True\<rparr>) in
         case select_turmas srv u (db w1) of
           Rejected \<Rightarrow> w1
         | Resolved r \<Rightarrow>
            (case r_error r of
               Some e \<Rightarrow>
                 (say ''Erro'' ''Nao foi possivel carregar as turmas.'' True
                    (console_error ''Error loading turmas:'' w1))\<lparr>tm_loading := False\<rparr>
             | None \<Rightarrow>
                 w1\<lparr>tm_turmas := (case r_data r of None \<Rightarrow> [] | Some rows \<Rightarrow> rows),
                    tm_loading := False\<rparr>)))"

definition tm_blank :: turma_form where
  "tm_blank = \<lparr>f_name = [], f_description = [], f_grade_level = [], f_subject = []\<rparr>"

definition tm_resetForm :: "'db world \<Rightarrow> 'db world" where
  "tm_resetForm w = w\<lparr>tm_formData := tm_blank, tm_editingTurma := None, tm_isDialogOpen := False\<rparr>"

definition turmaData :: "uid \<Rightarrow> turma_form \<Rightarrow> turma_data" where
  "turmaData u fd =
    \<lparr>d_name = f_name fd,
     d_description = or_null (f_description fd),
     d_grade_level = or_null (f_grade_level fd),
     d_subject = or_null (f_subject fd),
     d_teacher_id = u\<rparr>"

definition tm_handleSubmit ::
  "'db backend \<Rightarrow> ('db world \<Rightarrow> 'db world) \<Rightarrow> 'db world \<Rightarrow> 'db world"
where
  "tm_handleSubmit srv onStatsChange w =
    (case user w of
       None \<Rightarrow> w
     | Some u \<Rightarrow>
        (let td = turmaData u (tm_formData w) in
         case tm_editingTurma w of
           Some editing \<Rightarrow>
            (let w1 = issue (Update_turma td (t_id editing)) w;
                 (res, db') = update_turma srv td (t_id editing) (db w1);
                 w2 = w1\<lparr>db := db'\<rparr>
             in case res of
                  Rejected \<Rightarrow> w2
                | Resolved (Some e) \<Rightarrow> say ''Erro'' ''Nao foi possivel atualizar a turma.'' True w2
                | Resolved None \<Rightarrow>
                    tm_resetForm (onStatsChange (loadTurmas srv
                      (say ''Sucesso'' ''Turma atualizada com sucesso!'' False w2))))
         | None \<Rightarrow>
            (let w1 = issue (Insert_turma td) w;
                 (res, db') = insert_turma srv td (db w1);
                 w2 = w1\<lparr>db := db'\<rparr>
             in case res of
                  Rejected \<Rightarrow> w2
                | Resolved (Some e) \<Rightarrow> say ''Erro'' ''Nao foi possivel criar a turma.'' True w2
                | Resolved None \<Rightarrow>
                    tm_resetForm (onStatsChange (loadTurmas srv
                      (say ''Sucesso'' ''Turma criada com sucesso!'' False w2))))))"

text \<open>\<^verbatim>\<open>handleDelete\<close>; \<open>confirmed\<close> is the answer to the blocking \<^verbatim>\<open>confirm(...)\<close>.\<close>

definition tm_handleDelete ::
  "'db backend \<Rightarrow> ('db world \<Rightarrow> 'db world) \<Rightarrow> bool \<Rightarrow> string \<Rightarrow> 'db world \<Rightarrow> 'db world"
where
  "tm_handleDelete srv onStatsChange confirmed turmaId w =
    (if \<not> confirmed then w
     else
       (let w1 = issue (Delete_turma turmaId) w;
            (res, db') = delete_turma srv turmaId (db w1);
            w2 = w1\<lparr>db := db'\<rparr>
        in case res of
             Rejected \<Rightarrow> w2
           | Resolved (Some e) \<Rightarrow> say ''Erro'' ''Nao foi possivel excluir a turma.'' True w2
           | Resolved None \<Rightarrow>
               onStatsChange (loadTurmas srv
                 (say ''Sucesso'' ''Turma excluida com sucesso!'' False w2))))"

definition tm_startEdit :: "turma \<Rightarrow> 'db world \<Rightarrow> 'db world" where
  "tm_startEdit t w =
    w\<lparr>tm_editingTurma := Some t,
      tm_formData := \<lparr>f_name = t_name t,
                      f_description = or_empty (t_description t),
                      f_grade_level = or_empty (t_grade_level t),
                      f_subject = or_empty (t_subject t)\<rparr>,
      tm_isDialogOpen := True\<rparr>"

text \<open>The four inputs of the dialog, by their \<^verbatim>\<open>name\<close> attribute.\<close>

datatype tm_field = Name | Subject | Grade_level | Description

definition tm_handleInputChange :: "tm_field \<Rightarrow> string \<Rightarrow> 'db world \<Rightarrow> 'db world" where
  "tm_handleInputChange k v w =
    (let fd = tm_formData w in
     w\<lparr>tm_formData :=
         (case k of
            Name \<Rightarrow> fd\<lparr>f_name := v\<rparr>
          | Subject \<Rightarrow> fd\<lparr>f_subject := v\<rparr>
          | Grade_level \<Rightarrow> fd\<lparr>f_grade_level := v\<rparr>
          | Description \<Rightarrow> fd\<lparr>f_description := v\<rparr>)\<rparr>)"

section \<open>AtividadesManager\<close>

text \<open>
  \<^verbatim>\<open>loadData\<close>: the classes for the selector first (a failure is only logged), then
  the assignments (a failure is logged and raises a toast). After a mutation the
  unawaited \<^verbatim>\<open>loadData()\<close> and \<^verbatim>\<open>onStatsChange()\<close> interleave in the browser (the
  first count is issued before the second select); the log below keeps the requests of
  each load together, and the final state is the same.
\<close>

definition loadData :: "'db backend \<Rightarrow> 'db world \<Rightarrow> 'db world" where
  "loadData srv w =
    (case user w of
       None \<Rightarrow> w
     | Some u \<Rightarrow>
        (let w1 = issue (Select_turmas_id_name u) (w\<lparr>am_loading := True\<rparr>) in
         case select_turmas_id_name srv u (db w1) of
           Rejected \<Rightarrow> w1
         | Resolved rt \<Rightarrow>
            (let w2 = (case r_error rt of
                         Some e \<Rightarrow> console_error ''Error loading turmas:'' w1
                       | None \<Rightarrow>
                           w1\<lparr>am_turmas := (case r_data rt of None \<Rightarrow> [] | Some rows \<Rightarrow> rows)\<rparr>);
                 w3 = issue (Select_atividades u) w2
             in case select_atividades srv u (db w3) of
                  Rejected \<Rightarrow> w3
                | Resolved ra \<Rightarrow>
                   (case r_error ra of
                      Some e \<Rightarrow>
                        (say ''Erro'' ''Nao foi possivel carregar as atividades.'' True
                           (console_error ''Error loading atividades:'' w3))\<lparr>am_loading := False\<rparr>
                    | None \<Rightarrow>
                        w3\<lparr>am_atividades := (case r_data ra of None \<Rightarrow> [] | Some rows \<Rightarrow> rows),
                           am_loading := False\<rparr>))))"

definition am_blank :: atividade_form where
  "am_blank = \<lparr>g_title = [], g_description = [], g_due_date = [],
               g_status = Some ''pending'', g_turma_id = []\<rparr>"

definition am_resetForm :: "'db world \<Rightarrow> 'db world" where
  "am_resetForm w =
    w\<lparr>am_formData := am_blank, am_editingAtividade := None, am_isDialogOpen := False\<rparr>"

definition atividadeData :: "uid \<Rightarrow> atividade_form \<Rightarrow> atividade_data" where
  "atividadeData u fd =
    \<lparr>p_title = g_title fd,
     p_description = or_null (g_description fd),
     p_due_date = or_null (g_due_date fd),
     p_status = g_status fd,
     p_turma_id = g_turma_id fd,
     p_teacher_id = u\<rparr>"

definition am_handleSubmit ::
  "'db backend \<Rightarrow> ('db world \<Rightarrow> 'db world) \<Rightarrow> 'db world \<Rightarrow> 'db world"
where
  "am_handleSubmit srv onStatsChange w =
    (case user w of
       None \<Rightarrow> w
     | Some u \<Rightarrow>
        (let ad = atividadeData u (am_formData w) in
         case am_editingAtividade w of
           Some editing \<Rightarrow>
            (let w1 = issue (Update_atividade ad (a_id (row editing))) w;
                 (res, db') = update_atividade srv ad (a_id (row editing)) (db w1);
                 w2 = w1\<lparr>db := db'\<rparr>
             in case res of
                  Rejected \<Rightarrow> w2
                | Resolved (Some e) \<Rightarrow>
                    say ''Erro'' ''Nao foi possivel atualizar a atividade.'' True w2
                | Resolved None \<Rightarrow>
                    am_resetForm (onStatsChange (loadData srv
                      (say ''Sucesso'' ''Atividade atualizada com sucesso!'' False w2))))
         | None \<Rightarrow>
            (let w1 = issue (Insert_atividade ad) w;
                 (res, db') = insert_atividade srv ad (db w1);
                 w2 = w1\<lparr>db := db'\<rparr>
             in case res of
                  Rejected \<Rightarrow> w2
                | Resolved (Some e) \<Rightarrow>
                    say ''Erro'' ''Nao foi possivel criar a atividade.'' True w2
                | Resolved None \<Rightarrow>
                    am_resetForm (onStatsChange (loadData srv
                      (say ''Sucesso'' ''Atividade criada com sucesso!'' False w2))))))"

definition am_handleDelete ::
  "'db backend \<Rightarrow> ('db world \<Rightarrow> 'db world) \<Rightarrow> bool \<Rightarrow> string \<Rightarrow> 'db world \<Rightarrow> 'db world"
where
  "am_handleDelete srv onStatsChange confirmed atividadeId w =
    (if \<not> confirmed then w
     else
       (let w1 = issue (Delete_atividade atividadeId) w;
            (res, db') = delete_atividade srv atividadeId (db w1);
            w2 = w1\<lparr>db := db'\<rparr>
        in case res of
             Rejected \<Rightarrow> w2
           | Resolved (Some e) \<Rightarrow> say ''Erro'' ''Nao foi possivel excluir a atividade.'' True w2
           | Resolved None \<Rightarrow>
               onStatsChange (loadData srv
                 (say ''Sucesso'' ''Atividade excluida com sucesso!'' False w2))))"

definition am_startEdit :: "atividade \<Rightarrow> 'db world \<Rightarrow> 'db world" where
  "am_startEdit a w =
    w\<lparr>am_editingAtividade := Some a,
      am_formData := \<lparr>g_title = a_title (row a),
                      g_description = or_empty (a_description (row a)),
                      g_due_date = or_empty (a_due_date (row a)),
                      g_status = a_status (row a),
                      g_turma_id = a_turma_id (row a)\<rparr>,
      am_isDialogOpen := True\<rparr>"

text \<open>The inputs wired to \<^verbatim>\<open>handleInputChange\<close>, by their \<^verbatim>\<open>name\<close> attribute.\<close>

datatype am_field = Title | Due_date | Details

definition am_handleInputChange :: "am_field \<Rightarrow> string \<Rightarrow> 'db world \<Rightarrow> 'db world" where
  "am_handleInputChange k v w =
    (let fd = am_formData w in
     w\<lparr>am_formData :=
         (case k of
            Title \<Rightarrow> fd\<lparr>g_title := v\<rparr>
          | Due_date \<Rightarrow> fd\<lparr>g_due_date := v\<rparr>
          | Details \<Rightarrow> fd\<lparr>g_description := v\<rparr>)\<rparr>)"

text \<open>The three \<^verbatim>\<open>SelectItem\<close> values of the status selector.\<close>

definition status_values :: "string list" where
  "status_values = [''pending'', ''in_progress'', ''completed'']"

section \<open>What the rendered components offer\<close>

text \<open>
  The JSX decides which handlers the user can reach. While \<open>loading\<close> a component
  renders a spinner only. The dialog is modal: its controls are reachable exactly while
  it is open, and the page behind it is not. A form's \<^verbatim>\<open>onSubmit\<close> runs only when the
  browser's check of the inputs marked \<^verbatim>\<open>required\<close> passes. Dismissing a dialog
  (Escape, overlay, close button) calls \<^verbatim>\<open>onOpenChange(false)\<close>. A
  \<^verbatim>\<open>DialogTrigger asChild\<close> runs the button's own \<^verbatim>\<open>onClick\<close> and then toggles
  \<^verbatim>\<open>open\<close> from the value it was rendered with; a disabled button runs neither.
  The assignment cards are taken to render, which they do for a row whose status is one
  of the three keys of \<^verbatim>\<open>statusConfig\<close>.
\<close>

datatype tm_event =
    Click_NovaTurma
  | Click_CriarPrimeiraTurma
  | Click_EditTurma turma
  | Click_DeleteTurma string bool
  | Change_turma tm_field string
  | Submit_turma
  | Cancel_turma
  | Dismiss_turma

definition tm_offered :: "tm_event \<Rightarrow> 'db world \<Rightarrow> bool" where
  "tm_offered ev w =
    (\<not> tm_loading w \<and>
     (case ev of
        Click_NovaTurma \<Rightarrow> \<not> tm_isDialogOpen w
      | Click_CriarPrimeiraTurma \<Rightarrow> \<not> tm_isDialogOpen w \<and> tm_turmas w = []
      | Click_EditTurma t \<Rightarrow> \<not> tm_isDialogOpen w \<and> t \<in> set (tm_turmas w)
      | Click_DeleteTurma i c \<Rightarrow> \<not> tm_isDialogOpen w \<and> i \<in> set (map t_id (tm_turmas w))
      | Change_turma k v \<Rightarrow> tm_isDialogOpen w
      | Submit_turma \<Rightarrow> tm_isDialogOpen w \<and> f_name (tm_formData w) \<noteq> []
      | Cancel_turma \<Rightarrow> tm_isDialogOpen w
      | Dismiss_turma \<Rightarrow> tm_isDialogOpen w))"

definition tm_step ::
  "'db backend \<Rightarrow> ('db world \<Rightarrow> 'db world) \<Rightarrow> tm_event \<Rightarrow> 'db world \<Rightarrow> 'db world"
where
  "tm_step srv onStatsChange ev w =
    (if \<not> tm_offered ev w then w
     else case ev of
        Click_NovaTurma \<Rightarrow> (tm_resetForm w)\<lparr>tm_isDialogOpen := \<not> tm_isDialogOpen w\<rparr>
      | Click_CriarPrimeiraTurma \<Rightarrow> w\<lparr>tm_isDialogOpen := True\<rparr>
      | Click_EditTurma t \<Rightarrow> tm_startEdit t w
      | Click_DeleteTurma i c \<Rightarrow> tm_handleDelete srv onStatsChange c i w
      | Change_turma k v \<Rightarrow> tm_handleInputChange k v w
      | Submit_turma \<Rightarrow> tm_handleSubmit srv onStatsChange w
      | Cancel_turma \<Rightarrow> tm_resetForm w
      | Dismiss_turma \<Rightarrow> w\<lparr>tm_isDialogOpen := False\<rparr>)"

fun tm_run ::
  "'db backend \<Rightarrow> ('db world \<Rightarrow> 'db world) \<Rightarrow> tm_event list \<Rightarrow> 'db world \<Rightarrow> 'db world"
where
  "tm_run srv onStatsChange [] w = w"
| "tm_run srv onStatsChange (ev # evs) w =
     tm_run srv onStatsChange evs (tm_step srv onStatsChange ev w)"

datatype am_event =
    Click_NovaAtividade
  | Click_CriarPrimeiraAtividade
  | Click_EditAtividade atividade
  | Click_DeleteAtividade string bool
  | Change_atividade am_field string
  | Pick_turma string
  | Pick_status string
  | Submit_atividade
  | Cancel_atividade
  | Dismiss_atividade

definition am_offered :: "am_event \<Rightarrow> 'db world \<Rightarrow> bool" where
  "am_offered ev w =
    (\<not> am_loading w \<and>
     (case ev of
        Click_NovaAtividade \<Rightarrow> \<not> am_isDialogOpen w \<and> am_turmas w \<noteq> []
      | Click_CriarPrimeiraAtividade \<Rightarrow>
          \<not> am_isDialogOpen w \<and> am_turmas w \<noteq> [] \<and> am_atividades w = []
      | Click_EditAtividade a \<Rightarrow>
          \<not> am_isDialogOpen w \<and> am_turmas w \<noteq> [] \<and> a \<in> set (am_atividades w)
      | Click_DeleteAtividade i c \<Rightarrow>
          \<not> am_isDialogOpen w \<and> am_turmas w \<noteq> []
          \<and> i \<in> set (map (\<lambda>a. a_id (row a)) (am_atividades w))
      | Change_atividade k v \<Rightarrow> am_isDialogOpen w
      | Pick_turma v \<Rightarrow> am_isDialogOpen w \<and> v \<in> set (map tr_id (am_turmas w))
      | Pick_status v \<Rightarrow> am_isDialogOpen w \<and> v \<in> set status_values
      | Submit_atividade \<Rightarrow> am_isDialogOpen w \<and> g_title (am_formData w) \<noteq> []
      | Cancel_atividade \<Rightarrow> am_isDialogOpen w
      | Dismiss_atividade \<Rightarrow> am_isDialogOpen w))"

definition am_step ::
  "'db backend \<Rightarrow> ('db world \<Rightarrow> 'db world) \<Rightarrow> am_event \<Rightarrow> 'db world \<Rightarrow> 'db world"
where
  "am_step srv onStatsChange ev w =
    (if \<not> am_offered ev w then w
     else case ev of
        Click_NovaAtividade \<Rightarrow> (am_resetForm w)\<lparr>am_isDialogOpen := \<not> am_isDialogOpen w\<rparr>
      | Click_CriarPrimeiraAtividade \<Rightarrow> w\<lparr>am_isDialogOpen := True\<rparr>
      | Click_EditAtividade a \<Rightarrow> am_startEdit a w
      | Click_DeleteAtividade i c \<Rightarrow> am_handleDelete srv onStatsChange c i w
      | Change_atividade k v \<Rightarrow> am_handleInputChange k v w
      | Pick_turma v \<Rightarrow> w\<lparr>am_formData := (am_formData w)\<lparr>g_turma_id := v\<rparr>\<rparr>
      | Pick_status v \<Rightarrow> w\<lparr>am_formData := (am_formData w)\<lparr>g_status := Some v\<rparr>\<rparr>
      | Submit_atividade \<Rightarrow> am_handleSubmit srv onStatsChange w
      | Cancel_atividade \<Rightarrow> am_resetForm w
      | Dismiss_atividade \<Rightarrow> w\<lparr>am_isDialogOpen := False\<rparr>)"

fun am_run ::
  "'db backend \<Rightarrow> ('db world \<Rightarrow> 'db world) \<Rightarrow> am_event list \<Rightarrow> 'db world \<Rightarrow> 'db world"
where
  "am_run srv onStatsChange [] w = w"
| "am_run srv onStatsChange (ev # evs) w =
     am_run srv onStatsChange evs (am_step srv onStatsChange ev w)"

text \<open>The state every component starts in (the arguments of its \<^verbatim>\<open>useState\<close> calls).\<close>

definition initial :: "uid option \<Rightarrow> 'db \<Rightarrow> 'db world" where
  "initial u d =
    \<lparr>user = u, db = d, calls = [], toasts = [], console = [],
     af_loading = False,
     af_formData = \<lparr>email = [], password = [], fullName = [], confirmPassword = []\<rparr>,
     tm_turmas = [], tm_loading = True, tm_isDialogOpen = False,
     tm_editingTurma = None, tm_formData = tm_blank,
     am_atividades = [], am_turmas = [], am_loading = True, am_isDialogOpen = False,
     am_editingAtividade = None, am_formData = am_blank,
     stats = \<lparr>totalTurmas = 0, totalAtividades = 0, atividadesPendentes = 0\<rparr>,
     dash_loading = True\<rparr>"

section \<open>The store, as the SQL migration declares it\<close>

text \<open>
  The two tables of the migration with the constraints and policies it declares:
  \<^item> \<open>id\<close> is the primary key, filled by \<^verbatim>\<open>gen_random_uuid()\<close>: the generator is a
    stream of values, and a value already in the table is refused;
  \<^item> row level security: a row is visible to, and may be written by, the session
    whose \<^verbatim>\<open>auth.uid()\<close> equals its \<open>teacher_id\<close> (an update's new row is checked with
    the same expression); a statement that matches no visible row succeeds and changes
    nothing;
  \<^item> \<^verbatim>\<open>atividades.turma_id REFERENCES turmas(id) ON DELETE CASCADE\<close>;
  \<^item> \<^verbatim>\<open>CHECK (status IN ('pending', 'in_progress', 'completed'))\<close>, which SQL takes as
    satisfied when the expression is true or unknown, and it is unknown for NULL;
  \<^item> \<open>created_at\<close> and \<open>updated_at\<close> are \<^verbatim>\<open>now()\<close>, the latter refreshed by the
    update trigger; the clock advances with every write.
  Requests to this store always resolve. Two simplifications: \<open>due_date\<close> is kept as
  the text sent (the \<^verbatim>\<open>DATE\<close> column would refuse a text that is no date; the form's
  date input sends an ISO date or nothing), and a select without \<^verbatim>\<open>order\<close> returns the
  rows in the order of the table.
\<close>

record pg =
  session :: "uid option"
  turmas_tbl :: "turma list"
  atividades_tbl :: "atividade_row list"
  clock :: nat
  uuid_gen :: "nat \<Rightarrow> string"
  uuid_ctr :: nat

definition rls :: "pg \<Rightarrow> uid \<Rightarrow> bool" where
  "rls s teacher = (session s = Some teacher)"

definition status_allowed :: "string list" where
  "status_allowed = [''pending'', ''in_progress'', ''completed'']"

definition status_check :: "string option \<Rightarrow> bool" where
  "status_check v = (case v of None \<Rightarrow> True | Some t \<Rightarrow> t \<in> set status_allowed)"

definition own_turmas :: "uid \<Rightarrow> pg \<Rightarrow> turma list" where
  "own_turmas u s = filter (\<lambda>t. rls s (t_teacher_id t) \<and> t_teacher_id t = u) (turmas_tbl s)"

definition own_atividades :: "uid \<Rightarrow> pg \<Rightarrow> atividade_row list" where
  "own_atividades u s =
     filter (\<lambda>a. rls s (a_teacher_id a) \<and> a_teacher_id a = u) (atividades_tbl s)"

definition embed_turma :: "pg \<Rightarrow> atividade_row \<Rightarrow> atividade" where
  "embed_turma s a =
    \<lparr>row = a,
     turmas_name = map_option t_name
       (find (\<lambda>t. t_id t = a_turma_id a \<and> rls s (t_teacher_id t)) (turmas_tbl s))\<rparr>"

definition pg_select_turmas :: "uid \<Rightarrow> pg \<Rightarrow> turma response awaited" where
  "pg_select_turmas u s =
     Resolved \<lparr>r_data = Some (rev (sort_key t_created_at (own_turmas u s))), r_error = None\<rparr>"

definition pg_select_turmas_id_name :: "uid \<Rightarrow> pg \<Rightarrow> turma_ref response awaited" where
  "pg_select_turmas_id_name u s =
     Resolved \<lparr>r_data = Some (map (\<lambda>t. \<lparr>tr_id = t_id t, tr_name = t_name t\<rparr>) (own_turmas u s)),
               r_error = None\<rparr>"

definition pg_select_atividades :: "uid \<Rightarrow> pg \<Rightarrow> atividade response awaited" where
  "pg_select_atividades u s =
     Resolved \<lparr>r_data = Some (map (embed_turma s)
                                (rev (sort_key a_created_at (own_atividades u s)))),
               r_error = None\<rparr>"

definition pg_insert_turma :: "turma_data \<Rightarrow> pg \<Rightarrow> string option awaited \<times> pg" where
  "pg_insert_turma d s =
    (let i = uuid_gen s (uuid_ctr s); s1 = s\<lparr>uuid_ctr := Suc (uuid_ctr s)\<rparr> in
     if \<not> rls s (d_teacher_id d) then
       (Resolved (Some ''new row violates row-level security policy''), s1)
     else if i \<in> set (map t_id (turmas_tbl s)) then
       (Resolved (Some ''duplicate key value violates unique constraint''), s1)
     else
       (Resolved None,
        s1\<lparr>turmas_tbl := turmas_tbl s @
              [\<lparr>t_id = i, t_teacher_id = d_teacher_id d, t_name = d_name d,
                t_description = d_description d, t_grade_level = d_grade_level d,
                t_subject = d_subject d, t_created_at = clock s, t_updated_at = clock s\<rparr>],
           clock := Suc (clock s)\<rparr>))"

definition pg_update_turma :: "turma_data \<Rightarrow> string \<Rightarrow> pg \<Rightarrow> string option awaited \<times> pg" where
  "pg_update_turma d i s =
    (let hit = (\<lambda>t. t_id t = i \<and> rls s (t_teacher_id t)) in
     if filter hit (turmas_tbl s) = [] then (Resolved None, s)
     else if \<not> rls s (d_teacher_id d) then
       (Resolved (Some ''new row violates row-level security policy''), s)
     else
       (Resolved None,
        s\<lparr>turmas_tbl :=
             map (\<lambda>t. if hit t
                       then t\<lparr>t_teacher_id := d_teacher_id d, t_name := d_name d,
                              t_description := d_description d,
                              t_grade_level := d_grade_level d,
                              t_subject := d_subject d, t_updated_at := clock s\<rparr>
                       else t) (turmas_tbl s),
          clock := Suc (clock s)\<rparr>))"

definition pg_delete_turma :: "string \<Rightarrow> pg \<Rightarrow> string option awaited \<times> pg" where
  "pg_delete_turma i s =
    (let hit = (\<lambda>t. t_id t = i \<and> rls s (t_teacher_id t));
         gone = map t_id (filter hit (turmas_tbl s))
     in (Resolved None,
         s\<lparr>turmas_tbl := filter (\<lambda>t. \<not> hit t) (turmas_tbl s),
           atividades_tbl := filter (\<lambda>a. a_turma_id a \<notin> set gone) (atividades_tbl s)\<rparr>))"

definition pg_insert_atividade :: "atividade_data \<Rightarrow> pg \<Rightarrow> string option awaited \<times> pg" where
  "pg_insert_atividade p s =
    (let i = uuid_gen s (uuid_ctr s); s1 = s\<lparr>uuid_ctr := Suc (uuid_ctr s)\<rparr> in
     if \<not> rls s (p_teacher_id p) then
       (Resolved (Some ''new row violates row-level security policy''), s1)
     else if \<not> status_check (p_status p) then
       (Resolved (Some ''new row violates check constraint''), s1)
     else if i \<in> set (map a_id (atividades_tbl s)) then
       (Resolved (Some ''duplicate key value violates unique constraint''), s1)
     else if p_turma_id p \<notin> set (map t_id (turmas_tbl s)) then
       (Resolved (Some ''insert violates foreign key constraint''), s1)
     else
       (Resolved None,
        s1\<lparr>atividades_tbl := atividades_tbl s @
              [\<lparr>a_id = i, a_turma_id = p_turma_id p, a_teacher_id = p_teacher_id p,
                a_title = p_title p, a_description = p_description p,
                a_due_date = p_due_date p, a_status = p_status p,
                a_created_at = clock s, a_updated_at = clock s\<rparr>],
           clock := Suc (clock s)\<rparr>))"

definition pg_update_atividade ::
  "atividade_data \<Rightarrow> string \<Rightarrow> pg \<Rightarrow> string option awaited \<times> pg"
where
  "pg_update_atividade p i s =
    (let hit = (\<lambda>a. a_id a = i \<and> rls s (a_teacher_id a)) in
     if filter hit (atividades_tbl s) = [] then (Resolved None, s)
     else if \<not> rls s (p_teacher_id p) then
       (Resolved (Some ''new row violates row-level security policy''), s)
     else if \<not> status_check (p_status p) then
       (Resolved (Some ''new row violates check constraint''), s)
     else if p_turma_id p \<notin> set (map t_id (turmas_tbl s)) then
       (Resolved (Some ''update violates foreign key constraint''), s)
     else
       (Resolved None,
        s\<lparr>atividades_tbl :=
             map (\<lambda>a. if hit a
                       then a\<lparr>a_turma_id := p_turma_id p, a_teacher_id := p_teacher_id p,
                              a_title := p_title p, a_description := p_description p,
                              a_due_date := p_due_date p, a_status := p_status p,
                              a_updated_at := clock s\<rparr>
                       else a) (atividades_tbl s),
          clock := Suc (clock s)\<rparr>))"

definition pg_delete_atividade :: "string \<Rightarrow> pg \<Rightarrow> string option awaited \<times> pg" where
  "pg_delete_atividade i s =
    (Resolved None,
     s\<lparr>atividades_tbl :=
         filter (\<lambda>a. \<not> (a_id a = i \<and> rls s (a_teacher_id a))) (atividades_tbl s)\<rparr>)"

definition pg_count_turmas :: "uid \<Rightarrow> pg \<Rightarrow> nat option awaited" where
  "pg_count_turmas u s = Resolved (Some (length (own_turmas u s)))"

definition pg_count_atividades :: "uid \<Rightarrow> pg \<Rightarrow> nat option awaited" where
  "pg_count_atividades u s = Resolved (Some (length (own_atividades u s)))"

definition pg_count_pending :: "uid \<Rightarrow> pg \<Rightarrow> nat option awaited" where
  "pg_count_pending u s =
     Resolved (Some (length (filter (\<lambda>a. a_status a = Some ''pending'') (own_atividades u s))))"

definition store :: "pg backend" where
  "store =
    \<lparr>select_turmas = pg_select_turmas,
     select_turmas_id_name = pg_select_turmas_id_name,
     select_atividades = pg_select_atividades,
     insert_turma = pg_insert_turma,
     update_turma = pg_update_turma,
     delete_turma = pg_delete_turma,
     insert_atividade = pg_insert_atividade,
     update_atividade = pg_update_atividade,
     delete_atividade = pg_delete_atividade,
     count_turmas = pg_count_turmas,
     count_atividades = pg_count_atividades,
     count_pending = pg_count_pending\<rparr>"

subsection \<open>Histories of the store\<close>

text \<open>
  Any client may write to the store, signed in as any teacher. A history is a list of
  writes and session changes; \<open>fk_ok\<close> is the foreign key of \<open>atividades.turma_id\<close>
  read as a property of a state.
\<close>

datatype pg_op =
    Sign_in "uid option"
  | Ins_turma turma_data
  | Upd_turma turma_data string
  | Del_turma string
  | Ins_atividade atividade_data
  | Upd_atividade atividade_data string
  | Del_atividade string

fun pg_apply :: "pg_op \<Rightarrow> pg \<Rightarrow> pg" where
  "pg_apply (Sign_in x) s = s\<lparr>session := x\<rparr>"
| "pg_apply (Ins_turma d) s = snd (pg_insert_turma d s)"
| "pg_apply (Upd_turma d i) s = snd (pg_update_turma d i s)"
| "pg_apply (Del_turma i) s = snd (pg_delete_turma i s)"
| "pg_apply (Ins_atividade p) s = snd (pg_insert_atividade p s)"
| "pg_apply (Upd_atividade p i) s = snd (pg_update_atividade p i s)"
| "pg_apply (Del_atividade i) s = snd (pg_delete_atividade i s)"

fun pg_run :: "pg_op list \<Rightarrow> pg \<Rightarrow> pg" where
  "pg_run [] s = s"
| "pg_run (x # xs) s = pg_run xs (pg_apply x s)"

definition fk_ok :: "pg \<Rightarrow> bool" where
  "fk_ok s = list_all (\<lambda>a. a_turma_id a \<in> set (map t_id (turmas_tbl s))) (atividades_tbl s)"

section \<open>Concrete states\<close>

text \<open>
  A teacher \<open>ana\<close>, signed in, whose store holds nothing, or one class with one
  assignment; the identifier generator yields \<open>i\<close>, \<open>ii\<close>, \<open>iii\<close>, ...
\<close>

definition db_empty :: pg where
  "db_empty =
    \<lparr>session = Some ''ana'', turmas_tbl = [], atividades_tbl = [], clock = 0,
     uuid_gen = (\<lambda>n. replicate (Suc n) (CHR ''i'')), uuid_ctr = 0\<rparr>"

definition turma_5A :: turma where
  "turma_5A =
    \<lparr>t_id = ''t1'', t_teacher_id = ''ana'', t_name = ''5 Ano A'', t_description = None,
     t_grade_level = Some ''5 Ano'', t_subject = None, t_created_at = 0, t_updated_at = 0\<rparr>"

definition lista_1 :: atividade_row where
  "lista_1 =
    \<lparr>a_id = ''a1'', a_turma_id = ''t1'', a_teacher_id = ''ana'', a_title = ''Lista 1'',
     a_description = None, a_due_date = Some ''2025-03-01'', a_status = Some ''pending'',
     a_created_at = 1, a_updated_at = 1\<rparr>"

definition db_one :: pg where
  "db_one = db_empty\<lparr>turmas_tbl := [turma_5A], atividades_tbl := [lista_1], clock := 2\<rparr>"

definition mismatch_toast :: toast where
  "mismatch_toast =
    \<lparr>title = ''Erro'', description = ''As senhas nao coincidem'', destructive = True\<rparr>"

text \<open>A sign-up form whose confirmation differs from the password in its last character.\<close>

definition w_mismatch :: "nat world" where
  "w_mismatch =
    (initial None 0)\<lparr>af_formData :=
      \<lparr>email = ''ana@escola.br'', password = ''abc123'', fullName = ''Ana'',
       confirmPassword = ''abc124''\<rparr>\<rparr>"

text \<open>An auth hook that accepts every sign-up, counting them in the remote state.\<close>

definition signUp_accepting :: "string \<Rightarrow> string \<Rightarrow> string \<Rightarrow> nat \<Rightarrow> string option awaited \<times> nat" where
  "signUp_accepting e p n d = (Resolved None, Suc d)"

text \<open>The client of \<open>ana\<close> after all three components have loaded the example store.\<close>

definition w_loaded :: "pg world" where
  "w_loaded =
    (initial (Some ''ana'') db_one)
      \<lparr>tm_turmas := [turma_5A], tm_loading := False,
       am_atividades := [\<lparr>row = lista_1, turmas_name = Some ''5 Ano A''\<rparr>],
       am_turmas := [\<lparr>tr_id = ''t1'', tr_name = ''5 Ano A''\<rparr>], am_loading := False,
       stats := \<lparr>totalTurmas = 1, totalAtividades = 1, atividadesPendentes = 1\<rparr>,
       dash_loading := False\<rparr>"

text \<open>
  Stores that fail: every select resolves with an error; the assignment count resolves
  with a null count; all three counts resolve with a null count.
\<close>

definition store_select_error :: "pg backend" where
  "store_select_error =
    store\<lparr>select_turmas := (\<lambda>u s. Resolved \<lparr>r_data = None, r_error = Some ''fetch failed''\<rparr>),
          select_atividades := (\<lambda>u s. Resolved \<lparr>r_data = None, r_error = Some ''fetch failed''\<rparr>)\<rparr>"

definition store_count_null :: "pg backend" where
  "store_count_null = store\<lparr>count_atividades := (\<lambda>u s. Resolved None)\<rparr>"

definition store_counts_null :: "pg backend" where
  "store_counts_null =
    store\<lparr>count_turmas := (\<lambda>u s. Resolved None),
          count_atividades := (\<lambda>u s. Resolved None),
          count_pending := (\<lambda>u s. Resolved None)\<rparr>"

definition load_turmas_toast :: toast where
  "load_turmas_toast =
    \<lparr>title = ''Erro'', description = ''Nao foi possivel carregar as turmas.'',
     destructive = True\<rparr>"

definition load_atividades_toast :: toast where
  "load_atividades_toast =
    \<lparr>title = ''Erro'', description = ''Nao foi possivel carregar as atividades.'',
     destructive = True\<rparr>"

text \<open>The example store before its assignment was created.\<close>

definition db_class_only :: pg where
  "db_class_only = db_one\<lparr>atividades_tbl := [], clock := 1\<rparr>"

text \<open>The loaded client of the empty store, and of the store with one class only.\<close>

definition w_empty :: "pg world" where
  "w_empty =
    (initial (Some ''ana'') db_empty)
      \<lparr>tm_loading := False, am_loading := False, dash_loading := False\<rparr>"

definition w_class_only :: "pg world" where
  "w_class_only =
    w_loaded\<lparr>db := db_class_only, am_atividades := [],
             stats := \<lparr>totalTurmas = 1, totalAtividades = 0, atividadesPendentes = 0\<rparr>\<rparr>"

text \<open>The loaded client with a create dialog filled in, for a class and for an assignment.\<close>

definition w_new_turma :: "pg world" where
  "w_new_turma =
    w_loaded\<lparr>tm_isDialogOpen := True,
             tm_formData := \<lparr>f_name = ''6 Ano B'', f_description = [],
                             f_grade_level = ''6 Ano'', f_subject = ''Matematica''\<rparr>\<rparr>"

definition w_new_atividade :: "pg world" where
  "w_new_atividade =
    w_loaded\<lparr>am_isDialogOpen := True,
             am_formData := \<lparr>g_title = ''Lista 2'', g_description = ''Fracoes'',
                             g_due_date = [], g_status = Some ''pending'',
                             g_turma_id = ''t1''\<rparr>\<rparr>"

text \<open>
  What other clients do after the class \<open>t1\<close> is gone: an assignment for it is
  attempted, and a new class is created by \<open>bia\<close>.
\<close>

definition later_ops :: "pg_op list" where
  "later_ops =
    [Ins_atividade \<lparr>p_title = ''Lista 3'', p_description = None, p_due_date = None,
                    p_status = Some ''pending'', p_turma_id = ''t1'', p_teacher_id = ''ana''\<rparr>,
     Sign_in (Some ''bia''),
     Ins_turma \<lparr>d_name = ''7 Ano C'', d_description = None, d_grade_level = None,
                d_subject = None, d_teacher_id = ''bia''\<rparr>,
     Sign_in (Some ''ana'')]"

section \<open>Facts about the handlers\<close>

subsection \<open>The request log only grows\<close>

lemma calls_loadStats: "\<exists>rest. calls (loadStats srv w) = calls w @ rest"
  by (simp add: loadStats_def loadStats_catch_def issue_def console_error_def Let_def
      split: option.split awaited.split)

lemma calls_loadTurmas: "\<exists>rest. calls (loadTurmas srv w) = calls w @ rest"
  by (simp add: loadTurmas_def issue_def console_error_def say_def Let_def
      split: option.split awaited.split)

lemma calls_loadData: "\<exists>rest. calls (loadData srv w) = calls w @ rest"
  by (simp add: loadData_def issue_def console_error_def say_def Let_def
      split: option.split awaited.split)

lemma calls_tm_tail:
  "\<exists>rest. calls (tm_resetForm (loadStats srv (loadTurmas srv (say t d v w)))) = calls w @ rest"
proof -
  obtain r1 where "calls (loadTurmas srv (say t d v w)) = calls w @ r1"
    using calls_loadTurmas[of srv "say t d v w"] by (auto simp: say_def)
  moreover obtain r2 where "calls (loadStats srv (loadTurmas srv (say t d v w)))
      = calls (loadTurmas srv (say t d v w)) @ r2"
    using calls_loadStats by blast
  ultimately show ?thesis by (simp add: tm_resetForm_def)
qed

lemma calls_am_tail:
  "\<exists>rest. calls (am_resetForm (loadStats srv (loadData srv (say t d v w)))) = calls w @ rest"
proof -
  obtain r1 where "calls (loadData srv (say t d v w)) = calls w @ r1"
    using calls_loadData[of srv "say t d v w"] by (auto simp: say_def)
  moreover obtain r2 where "calls (loadStats srv (loadData srv (say t d v w)))
      = calls (loadData srv (say t d v w)) @ r2"
    using calls_loadStats by blast
  ultimately show ?thesis by (simp add: am_resetForm_def)
qed

text \<open>In Editing state the handler's first request is the update of the remembered row.\<close>

lemma tm_update_issued:
  assumes "user w = Some u" "tm_editingTurma w = Some t"
  shows "\<exists>rest. calls (tm_handleSubmit srv (loadStats srv) w)
           = calls w @ Update_turma (turmaData u (tm_formData w)) (t_id t) # rest"
proof -
  let ?td = "turmaData u (tm_formData w)"
  let ?w1 = "issue (Update_turma ?td (t_id t)) w"
  obtain res db' where r: "update_turma srv ?td (t_id t) (db ?w1) = (res, db')"
    by (cases "update_turma srv ?td (t_id t) (db ?w1)")
  let ?w2 = "?w1\<lparr>db := db'\<rparr>"
  have c2: "calls ?w2 = calls w @ [Update_turma ?td (t_id t)]" by (simp add: issue_def)
  show ?thesis
  proof (cases res)
    case Rejected
    then show ?thesis using assms r by (simp add: tm_handleSubmit_def Let_def issue_def)
  next
    case (Resolved e)
    show ?thesis
    proof (cases e)
      case (Some m)
      then show ?thesis using assms r Resolved
        by (simp add: tm_handleSubmit_def Let_def issue_def say_def)
    next
      case None
      obtain rest where "calls (tm_resetForm (loadStats srv (loadTurmas srv
          (say ''Sucesso'' ''Turma atualizada com sucesso!'' False ?w2)))) = calls ?w2 @ rest"
        using calls_tm_tail by blast
      then show ?thesis using assms r Resolved None c2
        by (simp add: tm_handleSubmit_def Let_def)
    qed
  qed
qed

lemma am_update_issued:
  assumes "user w = Some u" "am_editingAtividade w = Some a"
  shows "\<exists>rest. calls (am_handleSubmit srv (loadStats srv) w)
           = calls w @ Update_atividade (atividadeData u (am_formData w)) (a_id (row a)) # rest"
proof -
  let ?ad = "atividadeData u (am_formData w)"
  let ?w1 = "issue (Update_atividade ?ad (a_id (row a))) w"
  obtain res db' where r: "update_atividade srv ?ad (a_id (row a)) (db ?w1) = (res, db')"
    by (cases "update_atividade srv ?ad (a_id (row a)) (db ?w1)")
  let ?w2 = "?w1\<lparr>db := db'\<rparr>"
  have c2: "calls ?w2 = calls w @ [Update_atividade ?ad (a_id (row a))]"
    by (simp add: issue_def)
  show ?thesis
  proof (cases res)
    case Rejected
    then show ?thesis using assms r by (simp add: am_handleSubmit_def Let_def issue_def)
  next
    case (Resolved e)
    show ?thesis
    proof (cases e)
      case (Some m)
      then show ?thesis using assms r Resolved
        by (simp add: am_handleSubmit_def Let_def issue_def say_def)
    next
      case None
      obtain rest where "calls (am_resetForm (loadStats srv (loadData srv
          (say ''Sucesso'' ''Atividade atualizada com sucesso!'' False ?w2)))) = calls ?w2 @ rest"
        using calls_am_tail by blast
      then show ?thesis using assms r Resolved None c2
        by (simp add: am_handleSubmit_def Let_def)
    qed
  qed
qed

lemma or_null_or_empty: "v \<noteq> Some [] \<Longrightarrow> or_null (or_empty v) = v"
  by (cases v) (simp_all add: or_null_def or_empty_def)

subsection \<open>Unfolding a run on a concrete state\<close>

lemmas am_event_defs = am_step_def am_offered_def am_resetForm_def am_blank_def
  am_handleInputChange_def am_handleSubmit_def atividadeData_def or_null_def issue_def
  say_def Let_def status_values_def

lemmas tm_event_defs = tm_step_def tm_offered_def tm_resetForm_def tm_blank_def
  tm_handleInputChange_def tm_startEdit_def tm_handleDelete_def or_empty_def issue_def
  say_def Let_def

lemmas pg_defs = store_def rls_def own_turmas_def own_atividades_def embed_turma_def
  pg_select_turmas_def pg_select_turmas_id_name_def pg_select_atividades_def
  pg_insert_turma_def pg_update_turma_def pg_delete_turma_def
  pg_insert_atividade_def pg_update_atividade_def pg_delete_atividade_def
  pg_count_turmas_def pg_count_atividades_def pg_count_pending_def
  status_check_def status_allowed_def

lemmas example_defs = db_empty_def db_one_def db_class_only_def turma_5A_def lista_1_def
  w_loaded_def initial_def

subsection \<open>The fields of the concrete states\<close>

text \<open>
  With these equations a run on a concrete state is computed on the state's name, field
  by field, instead of on its unfolded record.
\<close>

lemma db_empty_sel:
  "session db_empty = Some ''ana''" "turmas_tbl db_empty = []"
  "atividades_tbl db_empty = []" "clock db_empty = 0" "uuid_ctr db_empty = 0"
  "uuid_gen db_empty n = replicate (Suc n) (CHR ''i'')"
  by (simp_all add: db_empty_def)

lemma db_one_sel:
  "session db_one = Some ''ana''" "turmas_tbl db_one = [turma_5A]"
  "atividades_tbl db_one = [lista_1]" "clock db_one = 2" "uuid_ctr db_one = 0"
  "uuid_gen db_one n = replicate (Suc n) (CHR ''i'')"
  by (simp_all add: db_one_def db_empty_def)

lemma db_class_only_sel:
  "session db_class_only = Some ''ana''" "turmas_tbl db_class_only = [turma_5A]"
  "atividades_tbl db_class_only = []" "clock db_class_only = 1" "uuid_ctr db_class_only = 0"
  "uuid_gen db_class_only n = replicate (Suc n) (CHR ''i'')"
  by (simp_all add: db_class_only_def db_one_def db_empty_def)

lemma turma_5A_sel:
  "t_id turma_5A = ''t1''" "t_teacher_id turma_5A = ''ana''" "t_name turma_5A = ''5 Ano A''"
  "t_description turma_5A = None" "t_grade_level turma_5A = Some ''5 Ano''"
  "t_subject turma_5A = None" "t_created_at turma_5A = 0" "t_updated_at turma_5A = 0"
  by (simp_all add: turma_5A_def)

lemma lista_1_sel:
  "a_id lista_1 = ''a1''" "a_turma_id lista_1 = ''t1''" "a_teacher_id lista_1 = ''ana''"
  "a_title lista_1 = ''Lista 1''" "a_description lista_1 = None"
  "a_due_date lista_1 = Some ''2025-03-01''" "a_status lista_1 = Some ''pending''"
  "a_created_at lista_1 = 1" "a_updated_at lista_1 = 1"
  by (simp_all add: lista_1_def)

lemma w_loaded_sel:
  "user w_loaded = Some ''ana''"
  "db w_loaded = db_one"
  "calls w_loaded = []"
  "toasts w_loaded = []"
  "console w_loaded = []"
  "af_loading w_loaded = False"
  "af_formData w_loaded = \<lparr>email = [], password = [], fullName = [], confirmPassword = []\<rparr>"
  "tm_turmas w_loaded = [turma_5A]"
  "tm_loading w_loaded = False"
  "tm_isDialogOpen w_loaded = False"
  "tm_editingTurma w_loaded = None"
  "tm_formData w_loaded = tm_blank"
  "am_atividades w_loaded = [\<lparr>row = lista_1, turmas_name = Some ''5 Ano A''\<rparr>]"
  "am_turmas w_loaded = [\<lparr>tr_id = ''t1'', tr_name = ''5 Ano A''\<rparr>]"
  "am_loading w_loaded = False"
  "am_isDialogOpen w_loaded = False"
  "am_editingAtividade w_loaded = None"
  "am_formData w_loaded = am_blank"
  "stats w_loaded = \<lparr>totalTurmas = 1, totalAtividades = 1, atividadesPendentes = 1\<rparr>"
  "dash_loading w_loaded = False"
  by (simp_all add: w_loaded_def initial_def tm_blank_def am_blank_def)

lemma w_empty_sel:
  "user w_empty = Some ''ana''"
  "db w_empty = db_empty"
  "calls w_empty = []"
  "toasts w_empty = []"
  "console w_empty = []"
  "af_loading w_empty = False"
  "af_formData w_empty = \<lparr>email = [], password = [], fullName = [], confirmPassword = []\<rparr>"
  "tm_turmas w_empty = []"
  "tm_loading w_empty = False"
  "tm_isDialogOpen w_empty = False"
  "tm_editingTurma w_empty = None"
  "tm_formData w_empty = tm_blank"
  "am_atividades w_empty = []"
  "am_turmas w_empty = []"
  "am_loading w_empty = False"
  "am_isDialogOpen w_empty = False"
  "am_editingAtividade w_empty = None"
  "am_formData w_empty = am_blank"
  "stats w_empty = \<lparr>totalTurmas = 0, totalAtividades = 0, atividadesPendentes = 0\<rparr>"
  "dash_loading w_empty = False"
  by (simp_all add: w_empty_def initial_def tm_blank_def am_blank_def)

lemma w_class_only_sel:
  "user w_class_only = Some ''ana''"
  "db w_class_only = db_class_only"
  "calls w_class_only = []"
  "toasts w_class_only = []"
  "console w_class_only = []"
  "af_loading w_class_only = False"
  "af_formData w_class_only = \<lparr>email = [], password = [], fullName = [], confirmPassword = []\<rparr>"
  "tm_turmas w_class_only = [turma_5A]"
  "tm_loading w_class_only = False"
  "tm_isDialogOpen w_class_only = False"
  "tm_editingTurma w_class_only = None"
  "tm_formData w_class_only = tm_blank"
  "am_atividades w_class_only = []"
  "am_turmas w_class_only = [\<lparr>tr_id = ''t1'', tr_name = ''5 Ano A''\<rparr>]"
  "am_loading w_class_only = False"
  "am_isDialogOpen w_class_only = False"
  "am_editingAtividade w_class_only = None"
  "am_formData w_class_only = am_blank"
  "stats w_class_only = \<lparr>totalTurmas = 1, totalAtividades = 0, atividadesPendentes = 0\<rparr>"
  "dash_loading w_class_only = False"
  by (simp_all add: w_class_only_def w_loaded_def initial_def tm_blank_def am_blank_def)

lemmas sel = db_empty_sel db_one_sel db_class_only_sel turma_5A_sel lista_1_sel
  w_loaded_sel w_empty_sel w_class_only_sel

subsection \<open>The store\<close>

lemma pg_insert_turma_ok:
  assumes "fst (pg_insert_turma d s) = Resolved None"
  shows "session s = Some (d_teacher_id d)"
    and "uuid_gen s (uuid_ctr s) \<notin> set (map t_id (turmas_tbl s))"
    and "turmas_tbl (snd (pg_insert_turma d s)) = turmas_tbl s @
          [\<lparr>t_id = uuid_gen s (uuid_ctr s), t_teacher_id = d_teacher_id d, t_name = d_name d,
            t_description = d_description d, t_grade_level = d_grade_level d,
            t_subject = d_subject d, t_created_at = clock s, t_updated_at = clock s\<rparr>]"
    and "session (snd (pg_insert_turma d s)) = session s"
    and "atividades_tbl (snd (pg_insert_turma d s)) = atividades_tbl s"
  using assms by (simp_all add: pg_insert_turma_def rls_def Let_def split: if_splits)

lemma pg_insert_atividade_ok:
  assumes "fst (pg_insert_atividade p s) = Resolved None"
  shows "session s = Some (p_teacher_id p)"
    and "uuid_gen s (uuid_ctr s) \<notin> set (map a_id (atividades_tbl s))"
    and "atividades_tbl (snd (pg_insert_atividade p s)) = atividades_tbl s @
          [\<lparr>a_id = uuid_gen s (uuid_ctr s), a_turma_id = p_turma_id p,
            a_teacher_id = p_teacher_id p, a_title = p_title p,
            a_description = p_description p, a_due_date = p_due_date p,
            a_status = p_status p, a_created_at = clock s, a_updated_at = clock s\<rparr>]"
    and "session (snd (pg_insert_atividade p s)) = session s"
    and "turmas_tbl (snd (pg_insert_atividade p s)) = turmas_tbl s"
    and "status_check (p_status p)"
    and "p_turma_id p \<in> set (map t_id (turmas_tbl s))"
  using assms by (simp_all add: pg_insert_atividade_def rls_def Let_def split: if_splits)

text \<open>What the three loads read from the store.\<close>

lemma loadTurmas_store:
  "user w = Some u \<Longrightarrow>
   loadTurmas store w =
     w\<lparr>calls := calls w @ [Select_turmas u],
       tm_turmas := rev (sort_key t_created_at (own_turmas u (db w))), tm_loading := False\<rparr>"
  by (simp add: loadTurmas_def store_def pg_select_turmas_def issue_def)

lemma loadData_store:
  "user w = Some u \<Longrightarrow>
   loadData store w =
     w\<lparr>calls := calls w @ [Select_turmas_id_name u, Select_atividades u],
       am_turmas := map (\<lambda>t. \<lparr>tr_id = t_id t, tr_name = t_name t\<rparr>) (own_turmas u (db w)),
       am_atividades := map (embed_turma (db w))
                          (rev (sort_key a_created_at (own_atividades u (db w)))),
       am_loading := False\<rparr>"
  by (simp add: loadData_def store_def pg_select_turmas_id_name_def pg_select_atividades_def
      issue_def)

lemma loadStats_store:
  "user w = Some u \<Longrightarrow>
   loadStats store w =
     w\<lparr>calls := calls w @ [Count_turmas u, Count_atividades u, Count_pending u],
       stats := \<lparr>totalTurmas = length (own_turmas u (db w)),
                 totalAtividades = length (own_atividades u (db w)),
                 atividadesPendentes =
                   length (filter (\<lambda>a. a_status a = Some ''pending'') (own_atividades u (db w)))\<rparr>,
       dash_loading := False\<rparr>"
  by (simp add: loadStats_def store_def pg_count_turmas_def pg_count_atividades_def
      pg_count_pending_def issue_def or_zero_def)

lemma filter_rev_sort_key:
  "filter P (rev (sort_key f xs)) = rev (sort_key f (filter P xs))"
  by (simp add: rev_filter [symmetric] filter_sort)

lemma store_sel:
  "insert_turma store = pg_insert_turma" "insert_atividade store = pg_insert_atividade"
  "delete_turma store = pg_delete_turma" "count_turmas store = pg_count_turmas"
  "count_atividades store = pg_count_atividades" "count_pending store = pg_count_pending"
  "select_turmas store = pg_select_turmas" "select_atividades store = pg_select_atividades"
  "select_turmas_id_name store = pg_select_turmas_id_name"
  by (simp_all add: store_def)

lemma w_new_sel:
  "user w_new_turma = Some ''ana''" "db w_new_turma = db_one"
  "tm_editingTurma w_new_turma = None"
  "tm_formData w_new_turma = \<lparr>f_name = ''6 Ano B'', f_description = [],
                             f_grade_level = ''6 Ano'', f_subject = ''Matematica''\<rparr>"
  "user w_new_atividade = Some ''ana''" "db w_new_atividade = db_one"
  "am_editingAtividade w_new_atividade = None"
  "am_formData w_new_atividade = \<lparr>g_title = ''Lista 2'', g_description = ''Fracoes'',
                             g_due_date = [], g_status = Some ''pending'',
                             g_turma_id = ''t1''\<rparr>"
  by (simp_all add: w_new_turma_def w_new_atividade_def sel)

section \<open>The claims\<close>

text \<open>
  C1. Whenever \<open>password\<close> differs from \<open>confirmPassword\<close>, \<^verbatim>\<open>handleSignUp\<close> issues no
  sign-up request: whatever the auth hook is, the handler only appends the mismatch toast
  and lowers the loading flag; the request log, the remote state and the form contents are
  what they were.
\<close>

theorem signUp_mismatch_sends_nothing:
  assumes "password (af_formData w) \<noteq> confirmPassword (af_formData w)"
  shows "handleSignUp signUp w = w\<lparr>toasts := toasts w @ [mismatch_toast], af_loading := False\<rparr>
       \<and> calls (handleSignUp signUp w) = calls w
       \<and> db (handleSignUp signUp w) = db w
       \<and> af_formData (handleSignUp signUp w) = af_formData w
       \<and> toasts (handleSignUp signUp w) = toasts w @ [mismatch_toast]"
  using assms by (simp add: handleSignUp_def Let_def say_def mismatch_toast_def)

text \<open>
  At the form \<open>abc123\<close> / \<open>abc124\<close> nothing is sent and the hook's counter stays at 0,
  although the hook would have accepted.
\<close>

theorem signUp_mismatch_sends_nothing_witness:
  "password (af_formData w_mismatch) \<noteq> confirmPassword (af_formData w_mismatch)
   \<and> calls (handleSignUp signUp_accepting w_mismatch) = []
   \<and> db (handleSignUp signUp_accepting w_mismatch) = 0
   \<and> toasts (handleSignUp signUp_accepting w_mismatch) = [mismatch_toast]
   \<and> af_formData (handleSignUp signUp_accepting w_mismatch) = af_formData w_mismatch"
  using signUp_mismatch_sends_nothing [of w_mismatch signUp_accepting]
  by (simp add: w_mismatch_def initial_def)

text \<open>
  C2. The claim is that a submission without a selected class issues no insert. The code
  has no such check: the class selector carries no \<^verbatim>\<open>required\<close> and \<^verbatim>\<open>handleSubmit\<close>
  tests nothing, so only the title (marked \<^verbatim>\<open>required\<close>) is checked: with the
  title empty the submit does not reach the handler. From the loaded
  example client the events \<open>Nova Atividade\<close>, typing the title \<open>Lista 2\<close>, submit, issue
  the insert with \<open>turma_id = ''\<close>; the store refuses it and the error toast is raised.
\<close>

theorem submit_without_class_reaches_store:
  "am_offered Click_NovaAtividade w_loaded
   \<and> \<not> am_offered Submit_atividade
        (am_run store (loadStats store) [Click_NovaAtividade] w_loaded)
   \<and> am_formData (am_run store (loadStats store)
        [Click_NovaAtividade, Change_atividade Title ''Lista 2''] w_loaded)
       = \<lparr>g_title = ''Lista 2'', g_description = [], g_due_date = [],
          g_status = Some ''pending'', g_turma_id = []\<rparr>
   \<and> am_offered Submit_atividade (am_run store (loadStats store)
        [Click_NovaAtividade, Change_atividade Title ''Lista 2''] w_loaded)
   \<and> calls (am_run store (loadStats store)
        [Click_NovaAtividade, Change_atividade Title ''Lista 2'', Submit_atividade] w_loaded)
       = [Insert_atividade
            \<lparr>p_title = ''Lista 2'', p_description = None, p_due_date = None,
             p_status = Some ''pending'', p_turma_id = [], p_teacher_id = ''ana''\<rparr>]
   \<and> toasts (am_run store (loadStats store)
        [Click_NovaAtividade, Change_atividade Title ''Lista 2'', Submit_atividade] w_loaded)
       = [\<lparr>title = ''Erro'', description = ''Nao foi possivel criar a atividade.'',
           destructive = True\<rparr>]"
  by (simp add: am_event_defs pg_defs example_defs)

text \<open>
  C3. While the class list of AtividadesManager is empty, neither way of opening the
  create dialog is offered: the button \<open>Nova Atividade\<close> is disabled and the empty-state
  card has no button, so both clicks leave the state, and with it the request log,
  untouched; with the dialog closed no event at all changes the state. The list is empty
  after \<^verbatim>\<open>loadData\<close> whenever the signed-in teacher owns no class in the store.
\<close>

theorem no_class_no_create:
  "(am_turmas w = [] \<longrightarrow>
      \<not> am_offered Click_NovaAtividade w \<and> \<not> am_offered Click_CriarPrimeiraAtividade w
      \<and> am_step srv f Click_NovaAtividade w = w
      \<and> am_step srv f Click_CriarPrimeiraAtividade w = w)
   \<and> (am_turmas w = [] \<and> \<not> am_isDialogOpen w \<longrightarrow> am_step srv f ev w = w)
   \<and> (user v = Some u \<and> own_turmas u (db v) = [] \<longrightarrow> am_turmas (loadData store v) = [])"
proof -
  have a: "am_turmas w = [] \<longrightarrow>
      \<not> am_offered Click_NovaAtividade w \<and> \<not> am_offered Click_CriarPrimeiraAtividade w
      \<and> am_step srv f Click_NovaAtividade w = w
      \<and> am_step srv f Click_CriarPrimeiraAtividade w = w"
    by (simp add: am_step_def am_offered_def)
  have b: "am_turmas w = [] \<and> \<not> am_isDialogOpen w \<longrightarrow> am_step srv f ev w = w"
    by (cases ev) (simp_all add: am_step_def am_offered_def)
  have c: "user v = Some u \<and> own_turmas u (db v) = [] \<longrightarrow> am_turmas (loadData store v) = []"
    by (simp add: loadData_def store_def pg_select_turmas_id_name_def pg_select_atividades_def
        issue_def Let_def)
  from a b c show ?thesis by blast
qed

text \<open>
  \<open>ana\<close> with an empty store: after \<^verbatim>\<open>loadData\<close> the class list is empty, the create
  button is not offered, and neither the empty-state card nor a submit changes anything.
\<close>

theorem no_class_no_create_witness:
  "user (initial (Some ''ana'') db_empty) = Some ''ana''
   \<and> own_turmas ''ana'' db_empty = []
   \<and> am_turmas (loadData store (initial (Some ''ana'') db_empty)) = []
   \<and> \<not> am_isDialogOpen (loadData store (initial (Some ''ana'') db_empty))
   \<and> \<not> am_offered Click_NovaAtividade (loadData store (initial (Some ''ana'') db_empty))
   \<and> am_step store (loadStats store) Click_CriarPrimeiraAtividade
        (loadData store (initial (Some ''ana'') db_empty))
       = loadData store (initial (Some ''ana'') db_empty)
   \<and> am_step store (loadStats store) Submit_atividade
        (loadData store (initial (Some ''ana'') db_empty))
       = loadData store (initial (Some ''ana'') db_empty)"
  using no_class_no_create [where w = "loadData store (initial (Some ''ana'') db_empty)"
      and v = "initial (Some ''ana'') db_empty" and u = "''ana''" and srv = store
      and f = "loadStats store" and ev = Submit_atividade]
  by (simp add: initial_def db_empty_def own_turmas_def loadData_def store_def
      pg_select_turmas_id_name_def pg_select_atividades_def own_atividades_def
      issue_def Let_def)

text \<open>
  C4. For a signed-in teacher, when the select of \<^verbatim>\<open>loadTurmas\<close> (classes) or the
  assignments select of \<^verbatim>\<open>loadData\<close> resolves with an error, the controller raises its
  destructive "could not load" toast and the row list it holds is the one it held
  before; a load that changes the list has resolved without error. (The auxiliary select
  of \<^verbatim>\<open>loadData\<close>, which feeds the class selector, is the hypothesis \<open>rt\<close>: it has
  resolved, with or without error.)
\<close>

theorem load_error_keeps_rows:
  assumes "user w = Some u"
  shows "(select_turmas srv u (db w) = Resolved r \<and> r_error r = Some e \<longrightarrow>
            tm_turmas (loadTurmas srv w) = tm_turmas w
            \<and> toasts (loadTurmas srv w) = toasts w @ [load_turmas_toast])
       \<and> (select_turmas_id_name srv u (db w) = Resolved rt
          \<and> select_atividades srv u (db w) = Resolved ra \<and> r_error ra = Some e' \<longrightarrow>
            am_atividades (loadData srv w) = am_atividades w
            \<and> toasts (loadData srv w) = toasts w @ [load_atividades_toast])
       \<and> (tm_turmas (loadTurmas srv w) \<noteq> tm_turmas w \<longrightarrow>
            (\<exists>r'. select_turmas srv u (db w) = Resolved r' \<and> r_error r' = None))
       \<and> (am_atividades (loadData srv w) \<noteq> am_atividades w \<longrightarrow>
            (\<exists>r'. select_atividades srv u (db w) = Resolved r' \<and> r_error r' = None))"
proof -
  have a: "select_turmas srv u (db w) = Resolved r \<and> r_error r = Some e \<longrightarrow>
            tm_turmas (loadTurmas srv w) = tm_turmas w
            \<and> toasts (loadTurmas srv w) = toasts w @ [load_turmas_toast]"
    using assms
    by (simp add: loadTurmas_def Let_def issue_def say_def console_error_def
        load_turmas_toast_def)
  have b: "select_turmas_id_name srv u (db w) = Resolved rt
          \<and> select_atividades srv u (db w) = Resolved ra \<and> r_error ra = Some e' \<longrightarrow>
            am_atividades (loadData srv w) = am_atividades w
            \<and> toasts (loadData srv w) = toasts w @ [load_atividades_toast]"
    using assms
    by (simp add: loadData_def Let_def issue_def say_def console_error_def
        load_atividades_toast_def split: option.split)
  have c: "tm_turmas (loadTurmas srv w) \<noteq> tm_turmas w \<longrightarrow>
            (\<exists>r'. select_turmas srv u (db w) = Resolved r' \<and> r_error r' = None)"
    using assms
    by (simp add: loadTurmas_def Let_def issue_def say_def console_error_def
        split: awaited.splits option.splits)
  have d: "am_atividades (loadData srv w) \<noteq> am_atividades w \<longrightarrow>
            (\<exists>r'. select_atividades srv u (db w) = Resolved r' \<and> r_error r' = None)"
    using assms
    by (simp add: loadData_def Let_def issue_def say_def console_error_def
        split: awaited.splits option.splits)
  from a b c d show ?thesis by blast
qed

text \<open>
  The loaded client of the example store, against a store whose selects resolve with an
  error: both lists stay as loaded and one destructive toast is raised by each load.
\<close>

theorem load_error_keeps_rows_witness:
  "user w_loaded = Some ''ana''
   \<and> select_turmas store_select_error ''ana'' (db w_loaded)
       = Resolved \<lparr>r_data = None, r_error = Some ''fetch failed''\<rparr>
   \<and> select_atividades store_select_error ''ana'' (db w_loaded)
       = Resolved \<lparr>r_data = None, r_error = Some ''fetch failed''\<rparr>
   \<and> tm_turmas (loadTurmas store_select_error w_loaded) = [turma_5A]
   \<and> toasts (loadTurmas store_select_error w_loaded) = [load_turmas_toast]
   \<and> am_atividades (loadData store_select_error w_loaded)
       = [\<lparr>row = lista_1, turmas_name = Some ''5 Ano A''\<rparr>]
   \<and> toasts (loadData store_select_error w_loaded) = [load_atividades_toast]"
  using load_error_keeps_rows [where w = w_loaded and u = "''ana''" and srv = store_select_error
      and r = "\<lparr>r_data = None, r_error = Some ''fetch failed''\<rparr>" and e = "''fetch failed''"
      and ra = "\<lparr>r_data = None, r_error = Some ''fetch failed''\<rparr>" and e' = "''fetch failed''"
      and rt = "\<lparr>r_data = Some [\<lparr>tr_id = ''t1'', tr_name = ''5 Ano A''\<rparr>], r_error = None\<rparr>"]
  by (simp add: w_loaded_def initial_def store_select_error_def store_def
      pg_select_turmas_id_name_def own_turmas_def rls_def db_one_def db_empty_def turma_5A_def)

subsection \<open>A successful creation, followed through the reloads\<close>

lemma tm_submit_created:
  assumes u: "user w = Some u" and c: "tm_editingTurma w = None"
    and ok: "fst (pg_insert_turma (turmaData u (tm_formData w)) (db w)) = Resolved None"
  shows "tm_turmas (tm_handleSubmit store (loadStats store) w) =
           rev (sort_key t_created_at
             (own_turmas u (snd (pg_insert_turma (turmaData u (tm_formData w)) (db w)))))"
    and "totalTurmas (stats (tm_handleSubmit store (loadStats store) w)) =
           length (own_turmas u (snd (pg_insert_turma (turmaData u (tm_formData w)) (db w))))"
proof -
  let ?d = "turmaData u (tm_formData w)"
  obtain s' where r: "pg_insert_turma ?d (db w) = (Resolved None, s')"
    using ok by (cases "pg_insert_turma ?d (db w)") simp
  let ?w2 = "say ''Sucesso'' ''Turma criada com sucesso!'' False ((issue (Insert_turma ?d) w)\<lparr>db := s'\<rparr>)"
  have u2: "user ?w2 = Some u" and d2: "db ?w2 = s'" using u by (simp_all add: say_def issue_def)
  have u3: "user (loadTurmas store ?w2) = Some u" and d3: "db (loadTurmas store ?w2) = s'"
    using u2 d2 by (simp_all add: loadTurmas_store)
  have e: "tm_handleSubmit store (loadStats store) w =
      tm_resetForm (loadStats store (loadTurmas store ?w2))"
    using u c r by (simp add: tm_handleSubmit_def store_def issue_def)
  show "tm_turmas (tm_handleSubmit store (loadStats store) w) =
           rev (sort_key t_created_at (own_turmas u (snd (pg_insert_turma ?d (db w)))))"
    unfolding e using r u2 d2 u3
    by (simp add: tm_resetForm_def loadStats_store loadTurmas_store)
  show "totalTurmas (stats (tm_handleSubmit store (loadStats store) w)) =
           length (own_turmas u (snd (pg_insert_turma ?d (db w))))"
    unfolding e using r u3 d3
    by (simp add: tm_resetForm_def loadStats_store)
qed

lemma own_turmas_inserted:
  assumes ok: "fst (pg_insert_turma d s) = Resolved None" and t: "d_teacher_id d = u"
  shows "own_turmas u (snd (pg_insert_turma d s)) = own_turmas u s @
          [\<lparr>t_id = uuid_gen s (uuid_ctr s), t_teacher_id = u, t_name = d_name d,
            t_description = d_description d, t_grade_level = d_grade_level d,
            t_subject = d_subject d, t_created_at = clock s, t_updated_at = clock s\<rparr>]"
  using pg_insert_turma_ok[OF ok] t by (simp add: own_turmas_def rls_def)

lemma no_own_turma_with_new_id:
  assumes "i \<notin> set (map t_id (turmas_tbl s))"
  shows "filter (\<lambda>t. t_id t = i) (own_turmas u s) = []"
  using assms by (auto simp: own_turmas_def filter_empty_conv)

lemma am_submit_created:
  assumes u: "user w = Some u" and c: "am_editingAtividade w = None"
    and ok: "fst (pg_insert_atividade (atividadeData u (am_formData w)) (db w)) = Resolved None"
  shows "am_atividades (am_handleSubmit store (loadStats store) w) =
           map (embed_turma (snd (pg_insert_atividade (atividadeData u (am_formData w)) (db w))))
             (rev (sort_key a_created_at
               (own_atividades u
                 (snd (pg_insert_atividade (atividadeData u (am_formData w)) (db w))))))"
    and "totalAtividades (stats (am_handleSubmit store (loadStats store) w)) =
           length (own_atividades u
             (snd (pg_insert_atividade (atividadeData u (am_formData w)) (db w))))"
proof -
  let ?d = "atividadeData u (am_formData w)"
  obtain s' where r: "pg_insert_atividade ?d (db w) = (Resolved None, s')"
    using ok by (cases "pg_insert_atividade ?d (db w)") simp
  let ?w2 = "say ''Sucesso'' ''Atividade criada com sucesso!'' False
               ((issue (Insert_atividade ?d) w)\<lparr>db := s'\<rparr>)"
  have u2: "user ?w2 = Some u" and d2: "db ?w2 = s'" using u by (simp_all add: say_def issue_def)
  have u3: "user (loadData store ?w2) = Some u" and d3: "db (loadData store ?w2) = s'"
    using u2 d2 by (simp_all add: loadData_store)
  have e: "am_handleSubmit store (loadStats store) w =
      am_resetForm (loadStats store (loadData store ?w2))"
    using u c r by (simp add: am_handleSubmit_def store_def issue_def)
  show "am_atividades (am_handleSubmit store (loadStats store) w) =
           map (embed_turma (snd (pg_insert_atividade ?d (db w))))
             (rev (sort_key a_created_at (own_atividades u (snd (pg_insert_atividade ?d (db w))))))"
    unfolding e using r u2 d2 u3
    by (simp add: am_resetForm_def loadStats_store loadData_store)
  show "totalAtividades (stats (am_handleSubmit store (loadStats store) w)) =
           length (own_atividades u (snd (pg_insert_atividade ?d (db w))))"
    unfolding e using r u3 d3
    by (simp add: am_resetForm_def loadStats_store)
qed

lemma own_atividades_inserted:
  assumes ok: "fst (pg_insert_atividade p s) = Resolved None" and t: "p_teacher_id p = u"
  shows "own_atividades u (snd (pg_insert_atividade p s)) = own_atividades u s @
          [\<lparr>a_id = uuid_gen s (uuid_ctr s), a_turma_id = p_turma_id p,
            a_teacher_id = u, a_title = p_title p,
            a_description = p_description p, a_due_date = p_due_date p,
            a_status = p_status p, a_created_at = clock s, a_updated_at = clock s\<rparr>]"
  using pg_insert_atividade_ok(1,3,4)[OF ok] t by (simp add: own_atividades_def rls_def)

lemma no_own_atividade_with_new_id:
  assumes "i \<notin> set (map a_id (atividades_tbl s))"
  shows "filter (\<lambda>a. a_id a = i) (own_atividades u s) = []"
  using assms by (auto simp: own_atividades_def filter_empty_conv)

lemma row_embed: "row (embed_turma s a) = a"
  by (simp add: embed_turma_def)

lemma filter_embed:
  "filter (\<lambda>a. a_id (row a) = i) (map (embed_turma s) xs)
     = map (embed_turma s) (filter (\<lambda>a. a_id a = i) xs)"
  by (induction xs) (simp_all add: embed_turma_def)

text \<open>
  C5. For a signed-in teacher in Creating state whose insert the store accepts,
  \<^verbatim>\<open>handleSubmit\<close> reloads the list and refreshes the dashboard, and afterwards
  \<^item> the list holds exactly one row with the identifier the store generated, and it is the
    row submitted (owner, form values with empty strings as null, creation time);
  \<^item> the dashboard's count of that resource is one more than the count a refresh would
    have shown before the submission.
  This holds for classes and for assignments.
\<close>

theorem created_row_listed_once:
  "(user w = Some u \<and> tm_editingTurma w = None
      \<and> fst (insert_turma store (turmaData u (tm_formData w)) (db w)) = Resolved None \<longrightarrow>
        filter (\<lambda>t. t_id t = uuid_gen (db w) (uuid_ctr (db w)))
               (tm_turmas (tm_handleSubmit store (loadStats store) w))
          = [\<lparr>t_id = uuid_gen (db w) (uuid_ctr (db w)), t_teacher_id = u,
              t_name = f_name (tm_formData w),
              t_description = or_null (f_description (tm_formData w)),
              t_grade_level = or_null (f_grade_level (tm_formData w)),
              t_subject = or_null (f_subject (tm_formData w)),
              t_created_at = clock (db w), t_updated_at = clock (db w)\<rparr>]
        \<and> totalTurmas (stats (tm_handleSubmit store (loadStats store) w))
            = totalTurmas (stats (loadStats store w)) + 1)
   \<and> (user w = Some u \<and> am_editingAtividade w = None
      \<and> fst (insert_atividade store (atividadeData u (am_formData w)) (db w)) = Resolved None \<longrightarrow>
        map row (filter (\<lambda>a. a_id (row a) = uuid_gen (db w) (uuid_ctr (db w)))
                        (am_atividades (am_handleSubmit store (loadStats store) w)))
          = [\<lparr>a_id = uuid_gen (db w) (uuid_ctr (db w)),
              a_turma_id = g_turma_id (am_formData w), a_teacher_id = u,
              a_title = g_title (am_formData w),
              a_description = or_null (g_description (am_formData w)),
              a_due_date = or_null (g_due_date (am_formData w)),
              a_status = g_status (am_formData w),
              a_created_at = clock (db w), a_updated_at = clock (db w)\<rparr>]
        \<and> totalAtividades (stats (am_handleSubmit store (loadStats store) w))
            = totalAtividades (stats (loadStats store w)) + 1)"
proof -
  have a: "user w = Some u \<and> tm_editingTurma w = None
      \<and> fst (insert_turma store (turmaData u (tm_formData w)) (db w)) = Resolved None \<longrightarrow>
        filter (\<lambda>t. t_id t = uuid_gen (db w) (uuid_ctr (db w)))
               (tm_turmas (tm_handleSubmit store (loadStats store) w))
          = [\<lparr>t_id = uuid_gen (db w) (uuid_ctr (db w)), t_teacher_id = u,
              t_name = f_name (tm_formData w),
              t_description = or_null (f_description (tm_formData w)),
              t_grade_level = or_null (f_grade_level (tm_formData w)),
              t_subject = or_null (f_subject (tm_formData w)),
              t_created_at = clock (db w), t_updated_at = clock (db w)\<rparr>]
        \<and> totalTurmas (stats (tm_handleSubmit store (loadStats store) w))
            = totalTurmas (stats (loadStats store w)) + 1"
  proof
    assume h: "user w = Some u \<and> tm_editingTurma w = None
      \<and> fst (insert_turma store (turmaData u (tm_formData w)) (db w)) = Resolved None"
    let ?d = "turmaData u (tm_formData w)"
    from h have u: "user w = Some u" and c: "tm_editingTurma w = None"
      and ok: "fst (pg_insert_turma ?d (db w)) = Resolved None"
      by (simp_all add: store_def)
    have t: "d_teacher_id ?d = u" by (simp add: turmaData_def)
    have own: "own_turmas u (snd (pg_insert_turma ?d (db w))) = own_turmas u (db w) @
          [\<lparr>t_id = uuid_gen (db w) (uuid_ctr (db w)), t_teacher_id = u,
            t_name = f_name (tm_formData w),
            t_description = or_null (f_description (tm_formData w)),
            t_grade_level = or_null (f_grade_level (tm_formData w)),
            t_subject = or_null (f_subject (tm_formData w)),
            t_created_at = clock (db w), t_updated_at = clock (db w)\<rparr>]"
      using own_turmas_inserted[OF ok t] by (simp add: turmaData_def)
    note fresh = no_own_turma_with_new_id[OF pg_insert_turma_ok(2)[OF ok], of u]
    show "filter (\<lambda>t. t_id t = uuid_gen (db w) (uuid_ctr (db w)))
               (tm_turmas (tm_handleSubmit store (loadStats store) w))
          = [\<lparr>t_id = uuid_gen (db w) (uuid_ctr (db w)), t_teacher_id = u,
              t_name = f_name (tm_formData w),
              t_description = or_null (f_description (tm_formData w)),
              t_grade_level = or_null (f_grade_level (tm_formData w)),
              t_subject = or_null (f_subject (tm_formData w)),
              t_created_at = clock (db w), t_updated_at = clock (db w)\<rparr>]
        \<and> totalTurmas (stats (tm_handleSubmit store (loadStats store) w))
            = totalTurmas (stats (loadStats store w)) + 1"
      using fresh u
      by (simp add: tm_submit_created[OF u c ok] own filter_rev_sort_key loadStats_store)
  qed
  have b: "user w = Some u \<and> am_editingAtividade w = None
      \<and> fst (insert_atividade store (atividadeData u (am_formData w)) (db w)) = Resolved None \<longrightarrow>
        map row (filter (\<lambda>a. a_id (row a) = uuid_gen (db w) (uuid_ctr (db w)))
                        (am_atividades (am_handleSubmit store (loadStats store) w)))
          = [\<lparr>a_id = uuid_gen (db w) (uuid_ctr (db w)),
              a_turma_id = g_turma_id (am_formData w), a_teacher_id = u,
              a_title = g_title (am_formData w),
              a_description = or_null (g_description (am_formData w)),
              a_due_date = or_null (g_due_date (am_formData w)),
              a_status = g_status (am_formData w),
              a_created_at = clock (db w), a_updated_at = clock (db w)\<rparr>]
        \<and> totalAtividades (stats (am_handleSubmit store (loadStats store) w))
            = totalAtividades (stats (loadStats store w)) + 1"
  proof
    assume h: "user w = Some u \<and> am_editingAtividade w = None
      \<and> fst (insert_atividade store (atividadeData u (am_formData w)) (db w)) = Resolved None"
    let ?d = "atividadeData u (am_formData w)"
    from h have u: "user w = Some u" and c: "am_editingAtividade w = None"
      and ok: "fst (pg_insert_atividade ?d (db w)) = Resolved None"
      by (simp_all add: store_def)
    have t: "p_teacher_id ?d = u" by (simp add: atividadeData_def)
    have own: "own_atividades u (snd (pg_insert_atividade ?d (db w))) =
          own_atividades u (db w) @
          [\<lparr>a_id = uuid_gen (db w) (uuid_ctr (db w)),
            a_turma_id = g_turma_id (am_formData w), a_teacher_id = u,
            a_title = g_title (am_formData w),
            a_description = or_null (g_description (am_formData w)),
            a_due_date = or_null (g_due_date (am_formData w)),
            a_status = g_status (am_formData w),
            a_created_at = clock (db w), a_updated_at = clock (db w)\<rparr>]"
      using own_atividades_inserted[OF ok t] by (simp add: atividadeData_def)
    note fresh = no_own_atividade_with_new_id[OF pg_insert_atividade_ok(2)[OF ok], of u]
    show "map row (filter (\<lambda>a. a_id (row a) = uuid_gen (db w) (uuid_ctr (db w)))
                        (am_atividades (am_handleSubmit store (loadStats store) w)))
          = [\<lparr>a_id = uuid_gen (db w) (uuid_ctr (db w)),
              a_turma_id = g_turma_id (am_formData w), a_teacher_id = u,
              a_title = g_title (am_formData w),
              a_description = or_null (g_description (am_formData w)),
              a_due_date = or_null (g_due_date (am_formData w)),
              a_status = g_status (am_formData w),
              a_created_at = clock (db w), a_updated_at = clock (db w)\<rparr>]
        \<and> totalAtividades (stats (am_handleSubmit store (loadStats store) w))
            = totalAtividades (stats (loadStats store w)) + 1"
      using fresh u
      by (simp add: am_submit_created[OF u c ok] own filter_embed row_embed
          filter_rev_sort_key loadStats_store)
  qed
  from a b show ?thesis by blast
qed

text \<open>
  On the example store (one class, one assignment) the class \<open>6 Ano B\<close> and the
  assignment \<open>Lista 2\<close> are created: each is listed once under the generated identifier
  \<open>i\<close>, and the count goes from 1 to 2.
\<close>

theorem created_row_listed_once_witness:
  "user w_new_turma = Some ''ana'' \<and> tm_editingTurma w_new_turma = None
   \<and> fst (insert_turma store (turmaData ''ana'' (tm_formData w_new_turma)) (db w_new_turma))
       = Resolved None
   \<and> filter (\<lambda>t. t_id t = ''i'') (tm_turmas (tm_handleSubmit store (loadStats store) w_new_turma))
       = [\<lparr>t_id = ''i'', t_teacher_id = ''ana'', t_name = ''6 Ano B'', t_description = None,
           t_grade_level = Some ''6 Ano'', t_subject = Some ''Matematica'',
           t_created_at = 2, t_updated_at = 2\<rparr>]
   \<and> totalTurmas (stats (tm_handleSubmit store (loadStats store) w_new_turma)) = 2
   \<and> user w_new_atividade = Some ''ana'' \<and> am_editingAtividade w_new_atividade = None
   \<and> fst (insert_atividade store (atividadeData ''ana'' (am_formData w_new_atividade))
            (db w_new_atividade)) = Resolved None
   \<and> map row (filter (\<lambda>a. a_id (row a) = ''i'')
                (am_atividades (am_handleSubmit store (loadStats store) w_new_atividade)))
       = [\<lparr>a_id = ''i'', a_turma_id = ''t1'', a_teacher_id = ''ana'', a_title = ''Lista 2'',
           a_description = Some ''Fracoes'', a_due_date = None, a_status = Some ''pending'',
           a_created_at = 2, a_updated_at = 2\<rparr>]
   \<and> totalAtividades (stats (am_handleSubmit store (loadStats store) w_new_atividade)) = 2"
  using created_row_listed_once [where w = w_new_turma and u = "''ana''"]
    created_row_listed_once [where w = w_new_atividade and u = "''ana''"]
  by (simp add: w_new_sel sel store_sel pg_insert_turma_def
      pg_insert_atividade_def rls_def status_check_def status_allowed_def turmaData_def
      atividadeData_def or_null_def loadStats_store own_turmas_def own_atividades_def)

text \<open>
  C6. The claim is that every stored assignment has one of the three status values. The
  column is declared \<^verbatim>\<open>TEXT DEFAULT 'pending' CHECK (status IN (...))\<close> without
  \<^verbatim>\<open>NOT NULL\<close>, and a \<^verbatim>\<open>CHECK\<close> is satisfied by NULL: an insert by the owner with
  \<open>status = null\<close> is accepted and the row is stored with no status, although the
  client's row type has no null and the form starts at \<open>pending\<close>. A text outside the
  three values is refused.
\<close>

theorem null_status_is_stored:
  "status_check None
   \<and> \<not> status_check (Some ''late'')
   \<and> g_status am_blank = Some ''pending''
   \<and> fst (pg_insert_atividade
        \<lparr>p_title = ''Lista 2'', p_description = None, p_due_date = None,
         p_status = None, p_turma_id = ''t1'', p_teacher_id = ''ana''\<rparr> db_one) = Resolved None
   \<and> map a_status (atividades_tbl (snd (pg_insert_atividade
        \<lparr>p_title = ''Lista 2'', p_description = None, p_due_date = None,
         p_status = None, p_turma_id = ''t1'', p_teacher_id = ''ana''\<rparr> db_one)))
       = [Some ''pending'', None]
   \<and> None \<notin> set (map Some status_allowed)"
  by (simp add: status_check_def status_allowed_def am_blank_def
      pg_insert_atividade_def rls_def sel)

subsection \<open>Deleting a class\<close>

lemma pg_delete_turma_cascade:
  assumes "c \<in> set (turmas_tbl s)" "session s = Some (t_teacher_id c)"
  shows "filter (\<lambda>a. a_turma_id a = t_id c) (atividades_tbl (snd (pg_delete_turma (t_id c) s))) = []"
    and "fst (pg_delete_turma (t_id c) s) = Resolved None"
    and "filter (\<lambda>t. t_id t = t_id c \<and> t_teacher_id t = t_teacher_id c)
           (turmas_tbl (snd (pg_delete_turma (t_id c) s))) = []"
  using assms
  by (auto simp: pg_delete_turma_def rls_def Let_def filter_empty_conv)

lemma own_atividades_subset: "set (own_atividades u s) \<subseteq> set (atividades_tbl s)"
  by (auto simp: own_atividades_def)

lemma tm_delete_store:
  "db (tm_handleDelete store (loadStats store) True i w) = snd (pg_delete_turma i (db w))"
proof -
  obtain s' where r: "pg_delete_turma i (db w) = (Resolved None, s')"
    by (simp add: pg_delete_turma_def Let_def)
  have l: "db (loadTurmas store v) = db v" for v :: "pg world"
    by (cases "user v") (simp_all add: loadTurmas_store, simp add: loadTurmas_def)
  have m: "db (loadStats store v) = db v" for v :: "pg world"
    by (cases "user v") (simp_all add: loadStats_store, simp add: loadStats_def)
  show ?thesis
    using r by (simp add: tm_handleDelete_def store_sel issue_def say_def l m)
qed

lemma pg_update_turma_ids:
  "map t_id (turmas_tbl (snd (pg_update_turma d i s))) = map t_id (turmas_tbl s)"
  "atividades_tbl (snd (pg_update_turma d i s)) = atividades_tbl s"
  by (simp_all add: pg_update_turma_def Let_def comp_def if_distrib [of t_id] cong: if_cong)

lemma fk_ok_apply: "fk_ok s \<Longrightarrow> fk_ok (pg_apply x s)"
proof (cases x)
  case (Sign_in y)
  assume "fk_ok s" then show ?thesis using Sign_in by (simp add: fk_ok_def)
next
  case (Ins_turma d)
  assume "fk_ok s" then show ?thesis using Ins_turma
    by (auto simp: fk_ok_def pg_insert_turma_def Let_def list_all_iff)
next
  case (Upd_turma d i)
  assume "fk_ok s" then show ?thesis using Upd_turma
    by (simp add: fk_ok_def pg_update_turma_ids)
next
  case (Del_turma i)
  assume "fk_ok s" then show ?thesis using Del_turma
    by (auto simp: fk_ok_def pg_delete_turma_def Let_def list_all_iff image_iff)
next
  case (Ins_atividade p)
  assume "fk_ok s" then show ?thesis using Ins_atividade
    by (auto simp: fk_ok_def pg_insert_atividade_def Let_def list_all_iff)
next
  case (Upd_atividade p i)
  assume "fk_ok s" then show ?thesis using Upd_atividade
    by (auto simp: fk_ok_def pg_update_atividade_def Let_def list_all_iff)
next
  case (Del_atividade i)
  assume "fk_ok s" then show ?thesis using Del_atividade
    by (auto simp: fk_ok_def pg_delete_atividade_def Let_def list_all_iff)
qed

lemma fk_ok_run: "fk_ok s \<Longrightarrow> fk_ok (pg_run xs s)"
  by (induction xs arbitrary: s) (simp_all add: fk_ok_apply)

lemma fk_ok_absent:
  assumes "fk_ok s" "i \<notin> set (map t_id (turmas_tbl s))"
  shows "filter (\<lambda>a. a_turma_id a = i) (atividades_tbl s) = []"
  using assms by (auto simp: fk_ok_def list_all_iff filter_empty_conv)

text \<open>
  C7. A signed-in teacher deletes, and confirms the deletion of, a class \<open>c\<close> of the
  store that they own. The handler issues the delete, the reload and the three counts,
  and afterwards
  \<^item> the store holds no assignment whose \<open>turma_id\<close> is the id of \<open>c\<close>;
  \<^item> \<^verbatim>\<open>loadData\<close> of any client on that store lists no such assignment;
  \<^item> the same holds after any further history of writes by any teachers, for as long as
    no class with that id exists, provided the store satisfied the foreign key before.
\<close>

theorem class_delete_cascades:
  assumes "user w = Some u" "session (db w) = Some u"
    and "c \<in> set (turmas_tbl (db w))" "t_teacher_id c = u"
  shows "filter (\<lambda>a. a_turma_id a = t_id c)
           (atividades_tbl (db (tm_handleDelete store (loadStats store) True (t_id c) w))) = []
       \<and> (db v = db (tm_handleDelete store (loadStats store) True (t_id c) w)
          \<and> user v = Some u' \<longrightarrow>
            filter (\<lambda>a. a_turma_id (row a) = t_id c) (am_atividades (loadData store v)) = [])
       \<and> (fk_ok (db w)
          \<and> db v = pg_run ops (db (tm_handleDelete store (loadStats store) True (t_id c) w))
          \<and> t_id c \<notin> set (map t_id (turmas_tbl (db v))) \<and> user v = Some u' \<longrightarrow>
            filter (\<lambda>a. a_turma_id (row a) = t_id c) (am_atividades (loadData store v)) = [])
       \<and> calls (tm_handleDelete store (loadStats store) True (t_id c) w)
           = calls w @ [Delete_turma (t_id c), Select_turmas u, Count_turmas u,
                        Count_atividades u, Count_pending u]"
proof -
  let ?w' = "tm_handleDelete store (loadStats store) True (t_id c) w"
  have s: "session (db w) = Some (t_teacher_id c)" using assms by simp
  have listed: "filter (\<lambda>a. a_turma_id (row a) = t_id c) (am_atividades (loadData store x)) = []"
    if "filter (\<lambda>a. a_turma_id a = t_id c) (atividades_tbl (db x)) = []" "user x = Some u'"
    for x :: "pg world"
  proof -
    have "filter (\<lambda>a. a_turma_id a = t_id c) (own_atividades u' (db x)) = []"
      using that(1) own_atividades_subset[of u' "db x"] by (auto simp: filter_empty_conv)
    then show ?thesis using that(2)
      by (auto simp: loadData_store filter_empty_conv embed_turma_def)
  qed
  have gone: "filter (\<lambda>a. a_turma_id a = t_id c) (atividades_tbl (db ?w')) = []"
    using pg_delete_turma_cascade(1)[OF assms(3) s] by (simp add: tm_delete_store)
  have a: "db v = db ?w' \<and> user v = Some u' \<longrightarrow>
            filter (\<lambda>a. a_turma_id (row a) = t_id c) (am_atividades (loadData store v)) = []"
    using gone listed[of v] by simp
  have b: "fk_ok (db w) \<and> db v = pg_run ops (db ?w')
          \<and> t_id c \<notin> set (map t_id (turmas_tbl (db v))) \<and> user v = Some u' \<longrightarrow>
            filter (\<lambda>a. a_turma_id (row a) = t_id c) (am_atividades (loadData store v)) = []"
  proof
    assume h: "fk_ok (db w) \<and> db v = pg_run ops (db ?w')
          \<and> t_id c \<notin> set (map t_id (turmas_tbl (db v))) \<and> user v = Some u'"
    have "fk_ok (db ?w')"
      using h fk_ok_apply[of "db w" "Del_turma (t_id c)"] by (simp add: tm_delete_store)
    then have "fk_ok (db v)" using h fk_ok_run by simp
    then have "filter (\<lambda>a. a_turma_id a = t_id c) (atividades_tbl (db v)) = []"
      using h fk_ok_absent by blast
    then show "filter (\<lambda>a. a_turma_id (row a) = t_id c) (am_atividades (loadData store v)) = []"
      using h listed[of v] by simp
  qed
  have c: "calls ?w' = calls w @ [Delete_turma (t_id c), Select_turmas u, Count_turmas u,
                        Count_atividades u, Count_pending u]"
    using assms(1)
    by (simp add: tm_handleDelete_def store_sel pg_delete_turma_def Let_def issue_def say_def
        loadTurmas_store loadStats_store)
  from gone a b c show ?thesis by blast
qed

text \<open>The example store after the deletion of its class, and after the later writes.\<close>

lemma deleted_db:
  "db (tm_handleDelete store (loadStats store) True ''t1'' w_loaded)
     = db_one\<lparr>turmas_tbl := [], atividades_tbl := []\<rparr>"
  by (simp add: tm_delete_store pg_delete_turma_def rls_def sel del: set_filter)

lemma later_db:
  "turmas_tbl (pg_run later_ops (db_one\<lparr>turmas_tbl := [], atividades_tbl := []\<rparr>))
     = [\<lparr>t_id = ''ii'', t_teacher_id = ''bia'', t_name = ''7 Ano C'', t_description = None,
         t_grade_level = None, t_subject = None, t_created_at = 2, t_updated_at = 2\<rparr>]"
  by (simp add: later_ops_def pg_insert_atividade_def pg_insert_turma_def rls_def
      status_check_def status_allowed_def sel)

text \<open>
  \<open>ana\<close> deletes \<open>5 Ano A\<close>: its assignment \<open>Lista 1\<close> is gone from the store and from
  every load, also after an attempt to add an assignment to the deleted class and the
  creation of another class.
\<close>

theorem class_delete_cascades_witness:
  "user w_loaded = Some ''ana'' \<and> session (db w_loaded) = Some ''ana''
   \<and> turma_5A \<in> set (turmas_tbl (db w_loaded)) \<and> t_teacher_id turma_5A = ''ana''
   \<and> filter (\<lambda>a. a_turma_id a = ''t1'') (atividades_tbl (db w_loaded)) = [lista_1]
   \<and> filter (\<lambda>a. a_turma_id a = ''t1'')
        (atividades_tbl (db (tm_handleDelete store (loadStats store) True ''t1'' w_loaded))) = []
   \<and> filter (\<lambda>a. a_turma_id (row a) = ''t1'')
        (am_atividades (loadData store
           (w_empty\<lparr>db := db (tm_handleDelete store (loadStats store) True ''t1'' w_loaded)\<rparr>)))
       = []
   \<and> fk_ok (db w_loaded)
   \<and> ''t1'' \<notin> set (map t_id (turmas_tbl (pg_run later_ops
        (db (tm_handleDelete store (loadStats store) True ''t1'' w_loaded)))))
   \<and> filter (\<lambda>a. a_turma_id (row a) = ''t1'')
        (am_atividades (loadData store
           (w_empty\<lparr>db := pg_run later_ops
              (db (tm_handleDelete store (loadStats store) True ''t1'' w_loaded))\<rparr>)))
       = []
   \<and> calls (tm_handleDelete store (loadStats store) True ''t1'' w_loaded)
       = [Delete_turma ''t1'', Select_turmas ''ana'', Count_turmas ''ana'',
          Count_atividades ''ana'', Count_pending ''ana'']"
  using class_delete_cascades [where w = w_loaded and u = "''ana''" and c = turma_5A
      and v = "w_empty\<lparr>db := db (tm_handleDelete store (loadStats store) True ''t1'' w_loaded)\<rparr>"
      and u' = "''ana''" and ops = "[]"]
    class_delete_cascades [where w = w_loaded and u = "''ana''" and c = turma_5A
      and v = "w_empty\<lparr>db := pg_run later_ops
                 (db (tm_handleDelete store (loadStats store) True ''t1'' w_loaded))\<rparr>"
      and u' = "''ana''" and ops = later_ops]
  by (simp add: sel fk_ok_def deleted_db later_db)

text \<open>
  C8. The store client resolves a count query that failed with a null count (no query
  of \<^verbatim>\<open>loadStats\<close> asks it to throw), so a failure of a count is a resolved null count.
  For a signed-in teacher whose three count queries resolve, \<^verbatim>\<open>loadStats\<close> raises no
  toast and writes nothing to the console, and it replaces the displayed counts: every
  count whose query failed is displayed as 0, whatever was displayed before, and every
  other count as returned.
\<close>

theorem count_failure_shows_zero:
  assumes "user w = Some u"
    and "count_turmas srv u (db w) = Resolved c1"
    and "count_atividades srv u (db w) = Resolved c2"
    and "count_pending srv u (db w) = Resolved c3"
  shows "toasts (loadStats srv w) = toasts w
       \<and> console (loadStats srv w) = console w
       \<and> stats (loadStats srv w) =
            \<lparr>totalTurmas = (case c1 of None \<Rightarrow> 0 | Some n \<Rightarrow> n),
             totalAtividades = (case c2 of None \<Rightarrow> 0 | Some n \<Rightarrow> n),
             atividadesPendentes = (case c3 of None \<Rightarrow> 0 | Some n \<Rightarrow> n)\<rparr>
       \<and> (c1 = None \<longrightarrow> totalTurmas (stats (loadStats srv w)) = 0)
       \<and> (c2 = None \<longrightarrow> totalAtividades (stats (loadStats srv w)) = 0)
       \<and> (c3 = None \<longrightarrow> atividadesPendentes (stats (loadStats srv w)) = 0)
       \<and> dash_loading (loadStats srv w) = False"
proof -
  have e: "loadStats srv w =
      w\<lparr>calls := calls w @ [Count_turmas u, Count_atividades u, Count_pending u],
        stats := \<lparr>totalTurmas = or_zero c1, totalAtividades = or_zero c2,
                  atividadesPendentes = or_zero c3\<rparr>,
        dash_loading := False\<rparr>"
    using assms by (simp add: loadStats_def issue_def Let_def)
  have z: "or_zero None = 0" by (simp add: or_zero_def)
  have a: "toasts (loadStats srv w) = toasts w" and b: "console (loadStats srv w) = console w"
    and l: "dash_loading (loadStats srv w) = False"
    unfolding e by simp_all
  have s: "stats (loadStats srv w) =
            \<lparr>totalTurmas = (case c1 of None \<Rightarrow> 0 | Some n \<Rightarrow> n),
             totalAtividades = (case c2 of None \<Rightarrow> 0 | Some n \<Rightarrow> n),
             atividadesPendentes = (case c3 of None \<Rightarrow> 0 | Some n \<Rightarrow> n)\<rparr>"
    unfolding e by (simp add: or_zero_def)
  have c1: "c1 = None \<longrightarrow> totalTurmas (stats (loadStats srv w)) = 0"
    and c2: "c2 = None \<longrightarrow> totalAtividades (stats (loadStats srv w)) = 0"
    and c3: "c3 = None \<longrightarrow> atividadesPendentes (stats (loadStats srv w)) = 0"
    unfolding e by (simp_all add: z)
  from a b l s c1 c2 c3 show ?thesis by blast
qed

text \<open>
  The loaded client, which displays 1, 1, 1: against a store whose assignment count
  fails it displays 1, 0, 1, and against one whose three counts fail 0, 0, 0; no toast
  and no console line in either run.
\<close>

theorem count_failure_shows_zero_witness:
  "user w_loaded = Some ''ana''
   \<and> stats w_loaded = \<lparr>totalTurmas = 1, totalAtividades = 1, atividadesPendentes = 1\<rparr>
   \<and> count_turmas store_count_null ''ana'' (db w_loaded) = Resolved (Some 1)
   \<and> count_atividades store_count_null ''ana'' (db w_loaded) = Resolved None
   \<and> count_pending store_count_null ''ana'' (db w_loaded) = Resolved (Some 1)
   \<and> stats (loadStats store_count_null w_loaded)
       = \<lparr>totalTurmas = 1, totalAtividades = 0, atividadesPendentes = 1\<rparr>
   \<and> console (loadStats store_count_null w_loaded) = []
   \<and> toasts (loadStats store_count_null w_loaded) = []
   \<and> count_turmas store_counts_null ''ana'' (db w_loaded) = Resolved None
   \<and> count_atividades store_counts_null ''ana'' (db w_loaded) = Resolved None
   \<and> count_pending store_counts_null ''ana'' (db w_loaded) = Resolved None
   \<and> stats (loadStats store_counts_null w_loaded)
       = \<lparr>totalTurmas = 0, totalAtividades = 0, atividadesPendentes = 0\<rparr>
   \<and> console (loadStats store_counts_null w_loaded) = []
   \<and> toasts (loadStats store_counts_null w_loaded) = []"
  using count_failure_shows_zero [where w = w_loaded and u = "''ana''" and srv = store_count_null
      and ?c1.0 = "Some 1" and ?c2.0 = None and ?c3.0 = "Some 1"]
    count_failure_shows_zero [where w = w_loaded and u = "''ana''" and srv = store_counts_null
      and ?c1.0 = None and ?c2.0 = None and ?c3.0 = None]
  by (simp add: w_loaded_def initial_def store_count_null_def store_counts_null_def store_def
      pg_count_turmas_def pg_count_pending_def own_turmas_def own_atividades_def rls_def
      db_one_def db_empty_def turma_5A_def lista_1_def)

subsection \<open>Runs of the class and assignment managers\<close>

lemma run_create_first_twice:
  "tm_run store (loadStats store)
     [Click_CriarPrimeiraTurma, Change_turma Name ''5 Ano B'', Dismiss_turma,
      Click_CriarPrimeiraTurma] w_empty
   = w_empty\<lparr>tm_isDialogOpen := True,
        tm_formData := \<lparr>f_name = ''5 Ano B'', f_description = [], f_grade_level = [],
                        f_subject = []\<rparr>\<rparr>"
  by (simp add: tm_event_defs sel)

lemma run_edit_delete_create_first:
  "tm_run store (loadStats store)
     [Click_EditTurma turma_5A, Dismiss_turma, Click_DeleteTurma ''t1'' True,
      Click_CriarPrimeiraTurma] w_loaded
   = w_loaded
      \<lparr>db := db_one\<lparr>turmas_tbl := [], atividades_tbl := []\<rparr>,
       calls := [Delete_turma ''t1'', Select_turmas ''ana'', Count_turmas ''ana'',
                 Count_atividades ''ana'', Count_pending ''ana''],
       toasts := [\<lparr>title = ''Sucesso'', description = ''Turma excluida com sucesso!'',
                   destructive = False\<rparr>],
       tm_turmas := [], tm_isDialogOpen := True, tm_editingTurma := Some turma_5A,
       tm_formData := \<lparr>f_name = ''5 Ano A'', f_description = [], f_grade_level = ''5 Ano'',
                       f_subject = []\<rparr>,
       stats := \<lparr>totalTurmas = 0, totalAtividades = 0, atividadesPendentes = 0\<rparr>\<rparr>"
  by (simp add: tm_event_defs sel pg_defs loadTurmas_def loadStats_def or_zero_def
      del: set_filter)

lemma run_edit_nova:
  "tm_run store (loadStats store) [Click_EditTurma turma_5A, Dismiss_turma, Click_NovaTurma]
     w_loaded = w_loaded\<lparr>tm_isDialogOpen := True\<rparr>"
  by (simp add: tm_event_defs sel)

lemma run_create_first_atividade_twice:
  "am_run store (loadStats store)
     [Click_CriarPrimeiraAtividade, Change_atividade Title ''Lista 1'', Dismiss_atividade,
      Click_CriarPrimeiraAtividade] w_class_only
   = w_class_only\<lparr>am_isDialogOpen := True,
        am_formData := \<lparr>g_title = ''Lista 1'', g_description = [], g_due_date = [],
                        g_status = Some ''pending'', g_turma_id = []\<rparr>\<rparr>"
  by (simp add: am_event_defs sel)

text \<open>
  C9. The claim is that every way of opening the create dialog clears the form and the
  editing reference. \<open>Nova Turma\<close> does (\<^verbatim>\<open>resetForm\<close>), the empty-state buttons
  \<open>Criar Primeira Turma\<close> and \<open>Criar Primeira Atividade\<close> only set \<^verbatim>\<open>isDialogOpen\<close>:
  \<^item> on the empty store: open with the first button, type \<open>5 Ano B\<close>, dismiss, open again:
    the dialog shows \<open>5 Ano B\<close>;
  \<^item> on the example store: edit the only class, dismiss, delete it, open with the first
    button: the dialog is in Editing state on the deleted row, with its values;
  \<^item> the same edit and dismiss followed by \<open>Nova Turma\<close> gives a blank Creating form;
  \<^item> the assignments manager repeats the first run with its own button.
\<close>

theorem create_first_keeps_old_form:
  "tm_offered Click_CriarPrimeiraTurma w_empty
   \<and> tm_formData w_empty = tm_blank
   \<and> tm_isDialogOpen (tm_run store (loadStats store)
        [Click_CriarPrimeiraTurma, Change_turma Name ''5 Ano B'', Dismiss_turma,
         Click_CriarPrimeiraTurma] w_empty)
   \<and> tm_formData (tm_run store (loadStats store)
        [Click_CriarPrimeiraTurma, Change_turma Name ''5 Ano B'', Dismiss_turma,
         Click_CriarPrimeiraTurma] w_empty)
       = \<lparr>f_name = ''5 Ano B'', f_description = [], f_grade_level = [], f_subject = []\<rparr>
   \<and> tm_isDialogOpen (tm_run store (loadStats store)
        [Click_EditTurma turma_5A, Dismiss_turma, Click_DeleteTurma ''t1'' True,
         Click_CriarPrimeiraTurma] w_loaded)
   \<and> tm_editingTurma (tm_run store (loadStats store)
        [Click_EditTurma turma_5A, Dismiss_turma, Click_DeleteTurma ''t1'' True,
         Click_CriarPrimeiraTurma] w_loaded) = Some turma_5A
   \<and> tm_formData (tm_run store (loadStats store)
        [Click_EditTurma turma_5A, Dismiss_turma, Click_DeleteTurma ''t1'' True,
         Click_CriarPrimeiraTurma] w_loaded)
       = \<lparr>f_name = ''5 Ano A'', f_description = [], f_grade_level = ''5 Ano'', f_subject = []\<rparr>
   \<and> tm_editingTurma (tm_run store (loadStats store)
        [Click_EditTurma turma_5A, Dismiss_turma, Click_NovaTurma] w_loaded) = None
   \<and> tm_formData (tm_run store (loadStats store)
        [Click_EditTurma turma_5A, Dismiss_turma, Click_NovaTurma] w_loaded) = tm_blank
   \<and> am_isDialogOpen (am_run store (loadStats store)
        [Click_CriarPrimeiraAtividade, Change_atividade Title ''Lista 1'', Dismiss_atividade,
         Click_CriarPrimeiraAtividade] w_class_only)
   \<and> am_formData (am_run store (loadStats store)
        [Click_CriarPrimeiraAtividade, Change_atividade Title ''Lista 1'', Dismiss_atividade,
         Click_CriarPrimeiraAtividade] w_class_only)
       = \<lparr>g_title = ''Lista 1'', g_description = [], g_due_date = [],
          g_status = Some ''pending'', g_turma_id = []\<rparr>"
  unfolding run_create_first_twice run_edit_delete_create_first run_edit_nova
    run_create_first_atividade_twice
  by (simp add: sel tm_offered_def)

text \<open>
  C10. Edit round trip. For a signed-in teacher and a row whose optional text fields are
  each null or a non-empty string, \<^verbatim>\<open>startEdit\<close> followed at once by \<^verbatim>\<open>handleSubmit\<close>
  issues, as its first request, the update of that row's id with a payload whose editable
  fields are the row's stored values (and whose owner is the signed-in teacher); this
  holds for classes and for assignments, whatever the store answers.
\<close>

theorem edit_round_trip:
  assumes "user w = Some u"
  shows "(t_description t \<noteq> Some [] \<and> t_grade_level t \<noteq> Some [] \<and> t_subject t \<noteq> Some [] \<longrightarrow>
          (\<exists>rest. calls (tm_handleSubmit srv (loadStats srv) (tm_startEdit t w)) =
             calls w @
             Update_turma \<lparr>d_name = t_name t, d_description = t_description t,
                           d_grade_level = t_grade_level t, d_subject = t_subject t,
                           d_teacher_id = u\<rparr> (t_id t) # rest))
       \<and> (a_description (row a) \<noteq> Some [] \<and> a_due_date (row a) \<noteq> Some [] \<longrightarrow>
          (\<exists>rest. calls (am_handleSubmit srv (loadStats srv) (am_startEdit a w)) =
             calls w @
             Update_atividade \<lparr>p_title = a_title (row a), p_description = a_description (row a),
                               p_due_date = a_due_date (row a), p_status = a_status (row a),
                               p_turma_id = a_turma_id (row a), p_teacher_id = u\<rparr>
                              (a_id (row a)) # rest))"
proof (intro conjI impI)
  assume ok: "t_description t \<noteq> Some [] \<and> t_grade_level t \<noteq> Some [] \<and> t_subject t \<noteq> Some []"
  have u: "user (tm_startEdit t w) = Some u" and e: "tm_editingTurma (tm_startEdit t w) = Some t"
    and c: "calls (tm_startEdit t w) = calls w"
    using assms by (simp_all add: tm_startEdit_def)
  have "turmaData u (tm_formData (tm_startEdit t w)) =
      \<lparr>d_name = t_name t, d_description = t_description t, d_grade_level = t_grade_level t,
       d_subject = t_subject t, d_teacher_id = u\<rparr>"
    using ok by (simp add: turmaData_def tm_startEdit_def or_null_or_empty)
  then show "\<exists>rest. calls (tm_handleSubmit srv (loadStats srv) (tm_startEdit t w)) =
             calls w @
             Update_turma \<lparr>d_name = t_name t, d_description = t_description t,
                           d_grade_level = t_grade_level t, d_subject = t_subject t,
                           d_teacher_id = u\<rparr> (t_id t) # rest"
    using tm_update_issued[OF u e, of srv] c by simp
next
  assume ok: "a_description (row a) \<noteq> Some [] \<and> a_due_date (row a) \<noteq> Some []"
  have u: "user (am_startEdit a w) = Some u"
    and e: "am_editingAtividade (am_startEdit a w) = Some a"
    and c: "calls (am_startEdit a w) = calls w"
    using assms by (simp_all add: am_startEdit_def)
  have "atividadeData u (am_formData (am_startEdit a w)) =
      \<lparr>p_title = a_title (row a), p_description = a_description (row a),
       p_due_date = a_due_date (row a), p_status = a_status (row a),
       p_turma_id = a_turma_id (row a), p_teacher_id = u\<rparr>"
    using ok by (simp add: atividadeData_def am_startEdit_def or_null_or_empty)
  then show "\<exists>rest. calls (am_handleSubmit srv (loadStats srv) (am_startEdit a w)) =
             calls w @
             Update_atividade \<lparr>p_title = a_title (row a), p_description = a_description (row a),
                               p_due_date = a_due_date (row a), p_status = a_status (row a),
                               p_turma_id = a_turma_id (row a), p_teacher_id = u\<rparr>
                              (a_id (row a)) # rest"
    using am_update_issued[OF u e, of srv] c by simp
qed

text \<open>
  The class \<open>5 Ano A\<close> (description and subject null) and the assignment \<open>Lista 1\<close>
  (description null) of the example store, edited and resubmitted untouched.
\<close>

theorem edit_round_trip_witness:
  "user (initial (Some ''ana'') db_one) = Some ''ana''
   \<and> t_description turma_5A \<noteq> Some [] \<and> t_grade_level turma_5A \<noteq> Some []
   \<and> t_subject turma_5A \<noteq> Some []
   \<and> a_description lista_1 \<noteq> Some [] \<and> a_due_date lista_1 \<noteq> Some []
   \<and> (\<exists>rest. calls (tm_handleSubmit store (loadStats store)
                 (tm_startEdit turma_5A (initial (Some ''ana'') db_one))) =
        Update_turma \<lparr>d_name = ''5 Ano A'', d_description = None,
                      d_grade_level = Some ''5 Ano'', d_subject = None,
                      d_teacher_id = ''ana''\<rparr> ''t1'' # rest)
   \<and> (\<exists>rest. calls (am_handleSubmit store (loadStats store)
                 (am_startEdit \<lparr>row = lista_1, turmas_name = Some ''5 Ano A''\<rparr>
                    (initial (Some ''ana'') db_one))) =
        Update_atividade \<lparr>p_title = ''Lista 1'', p_description = None,
                          p_due_date = Some ''2025-03-01'', p_status = Some ''pending'',
                          p_turma_id = ''t1'', p_teacher_id = ''ana''\<rparr> ''a1'' # rest)"
  using edit_round_trip [where w = "initial (Some ''ana'') db_one" and u = "''ana''"
      and t = turma_5A and a = "\<lparr>row = lista_1, turmas_name = Some ''5 Ano A''\<rparr>"
      and srv = store]
  by (simp add: initial_def turma_5A_def lista_1_def)

end
